theory Spec2Isabelle
  imports Main
begin

section \<open>Python strings and integers\<close>

text \<open>
  A Python \<open>str\<close> is modelled as a \<open>string\<close> whose characters are the code points
  below 256; the text the program itself produces is ASCII, so the number of bytes of a
  written file is the length of its text.
\<close>

definition CR :: char where
  "CR = CHR 0x0D"

definition LF :: char where
  "LF = CHR 0x0A"

text \<open>\<^verbatim>\<open>s.endswith(suffix)\<close>\<close>

definition endswith :: "string \<Rightarrow> string \<Rightarrow> bool" where
  "endswith s suffix =
     (length suffix \<le> length s \<and> drop (length s - length suffix) s = suffix)"

text \<open>\<^verbatim>\<open>sep.join(parts)\<close>\<close>

fun join :: "string \<Rightarrow> string list \<Rightarrow> string" where
  "join sep [] = []"
| "join sep [x] = x"
| "join sep (x # y # ys) = x @ sep @ join sep (y # ys)"

text \<open>\<^verbatim>\<open>str(n)\<close> for an integer: decimal digits, a minus sign for negatives.\<close>

definition digit_char :: "nat \<Rightarrow> char" where
  "digit_char d = ''0123456789'' ! d"

fun str_nat :: "nat \<Rightarrow> string" where
  "str_nat n = (if n < 10 then [digit_char n] else str_nat (n div 10) @ [digit_char (n mod 10)])"

declare str_nat.simps [simp del]

definition py_str :: "int \<Rightarrow> string" where
  "py_str i = (if i < 0 then CHR ''-'' # str_nat (nat (- i)) else str_nat (nat i))"

text \<open>\<^verbatim>\<open>f"{n:,}"\<close>: the decimal digits in groups of three, separated by commas.\<close>

fun comma_nat :: "nat \<Rightarrow> string" where
  "comma_nat n =
     (if n < 1000 then str_nat n
      else comma_nat (n div 1000) @ '','' @
           [digit_char (n mod 1000 div 100), digit_char (n mod 100 div 10), digit_char (n mod 10)])"

declare comma_nat.simps [simp del]

definition py_commas :: "int \<Rightarrow> string" where
  "py_commas i = (if i < 0 then CHR ''-'' # comma_nat (nat (- i)) else comma_nat (nat i))"

text \<open>\<^verbatim>\<open>str.isspace\<close> on one character, \<^verbatim>\<open>str.strip()\<close> and \<^verbatim>\<open>str.lower()\<close>.\<close>

definition py_isspace :: "char \<Rightarrow> bool" where
  "py_isspace c =
     (let n = (of_char c :: nat)
      in (9 \<le> n \<and> n \<le> 13) \<or> (28 \<le> n \<and> n \<le> 32) \<or> n = 133 \<or> n = 160)"

definition py_strip :: "string \<Rightarrow> string" where
  "py_strip s = rev (dropWhile py_isspace (rev (dropWhile py_isspace s)))"

definition lower_char :: "char \<Rightarrow> char" where
  "lower_char c =
     (let n = (of_char c :: nat)
      in if (65 \<le> n \<and> n \<le> 90) \<or> (192 \<le> n \<and> n \<le> 222 \<and> n \<noteq> 215)
         then char_of (n + 32) else c)"

definition py_lower :: "string \<Rightarrow> string" where
  "py_lower s = map lower_char s"

text \<open>
  \<^verbatim>\<open>int(s)\<close> for a string: surrounding whitespace is dropped, then an optional sign,
  then decimal digits in which single underscores may separate digits. \<open>None\<close> stands
  for the \<^verbatim>\<open>ValueError\<close> that \<^verbatim>\<open>int\<close> raises on anything else, also on more
  digits than the interpreter's default limit of 4300.
\<close>

definition int_space :: "char \<Rightarrow> bool" where
  "int_space c =
     (let n = (of_char c :: nat) in (9 \<le> n \<and> n \<le> 13) \<or> n = 32 \<or> n = 133 \<or> n = 160)"

definition is_digit :: "char \<Rightarrow> bool" where
  "is_digit c = (let n = (of_char c :: nat) in 48 \<le> n \<and> n \<le> 57)"

definition digit_val :: "char \<Rightarrow> nat" where
  "digit_val c = of_char c - 48"

text \<open>\<^verbatim>\<open>s.split(sep)\<close> for a one-character separator.\<close>

fun split_on :: "char \<Rightarrow> string \<Rightarrow> string list" where
  "split_on sep [] = [[]]"
| "split_on sep (c # cs) =
     (if c = sep then [] # split_on sep cs
      else (case split_on sep cs of
              [] \<Rightarrow> [[c]]
            | p # ps \<Rightarrow> (c # p) # ps))"

definition digits_value :: "string \<Rightarrow> nat" where
  "digits_value ds = foldl (\<lambda>acc c. 10 * acc + digit_val c) 0 ds"

definition parse_digits :: "string \<Rightarrow> nat option" where
  "parse_digits s =
     (let groups = split_on (CHR ''_'') s
      in if list_all (\<lambda>g. g \<noteq> [] \<and> list_all is_digit g) groups
            \<and> length (concat groups) \<le> 4300
         then Some (digits_value (concat groups)) else None)"

definition py_int :: "string \<Rightarrow> int option" where
  "py_int s =
     (case rev (dropWhile int_space (rev (dropWhile int_space s))) of
        [] \<Rightarrow> None
      | c # cs \<Rightarrow>
          if c = CHR ''-'' then map_option (\<lambda>n. - int n) (parse_digits cs)
          else if c = CHR ''+'' then map_option int (parse_digits cs)
          else map_option int (parse_digits (c # cs)))"

section \<open>The csv writer\<close>

text \<open>
  \<^verbatim>\<open>csv.writer(csvfile, delimiter=';')\<close> uses the \<open>excel\<close> dialect otherwise: fields joined by
  the delimiter, a field quoted only when it holds the delimiter, the quote character or
  a character of the line terminator, a row of one empty field written as two quotes, and
  every row ended by \<^verbatim>\<open>'\r\n'\<close>. The file is opened with \<^verbatim>\<open>newline=''\<close>, so the
  terminator reaches the file as it is.
\<close>

definition lineterminator :: string where
  "lineterminator = [CR, LF]"

definition quotechar :: char where
  "quotechar = CHR 0x22"

definition needs_quotes :: "char \<Rightarrow> string \<Rightarrow> bool" where
  "needs_quotes delimiter field =
     list_ex (\<lambda>c. c = delimiter \<or> c = quotechar \<or> c = CR \<or> c = LF) field"

definition csv_field :: "char \<Rightarrow> string \<Rightarrow> string" where
  "csv_field delimiter field =
     (if needs_quotes delimiter field
      then [quotechar] @ concat (map (\<lambda>c. if c = quotechar then [c, c] else [c]) field) @ [quotechar]
      else field)"

definition writerow :: "char \<Rightarrow> string list \<Rightarrow> string" where
  "writerow delimiter row =
     (if row = [[]] then [quotechar, quotechar]
      else join [delimiter] (map (csv_field delimiter) row)) @ lineterminator"

section \<open>Exceptions, console and file system\<close>

text \<open>
  The exceptions the program can meet. \<^verbatim>\<open>ValueError\<close> is raised by \<^verbatim>\<open>int\<close> on a line it
  rejects, which the loops catch and never print, and by the conversion of an integer of
  more than 4300 digits to a string, whose message \<open>str_exn\<close> gives.
\<close>

datatype exn =
  KeyboardInterrupt | EOFError | ValueError | OverflowError | MemoryError | OSError string

text \<open>\<^verbatim>\<open>except Exception\<close> catches every exception but \<^verbatim>\<open>KeyboardInterrupt\<close>,
  which derives from \<^verbatim>\<open>BaseException\<close> only.\<close>

fun is_Exception :: "exn \<Rightarrow> bool" where
  "is_Exception KeyboardInterrupt = False"
| "is_Exception EOFError = True"
| "is_Exception ValueError = True"
| "is_Exception OverflowError = True"
| "is_Exception MemoryError = True"
| "is_Exception (OSError msg) = True"

text \<open>\<^verbatim>\<open>str(e)\<close>\<close>

fun str_exn :: "exn \<Rightarrow> string" where
  "str_exn KeyboardInterrupt = []"
| "str_exn EOFError = ''EOF when reading a line''"
| "str_exn ValueError =
     ''Exceeds the limit (4300 digits) for integer string conversion; '' @
     ''use sys.set_int_max_str_digits() to increase the limit''"
| "str_exn OverflowError = ''cannot fit 'int' into an index-sized integer''"
| "str_exn MemoryError = []"
| "str_exn (OSError msg) = msg"

text \<open>
  \<^verbatim>\<open>str(n)\<close>, \<^verbatim>\<open>f"{n}"\<close> and \<^verbatim>\<open>f"{n:,}"\<close> with the interpreter's default limit: an integer
  of more than 4300 decimal digits, the sign not counted, is not converted, and
  \<^verbatim>\<open>ValueError\<close> is raised.
\<close>

definition exceeds_str_digits :: "int \<Rightarrow> bool" where
  "exceeds_str_digits i = (4300 < length (str_nat (nat \<bar>i\<bar>)))"

definition str_int :: "int \<Rightarrow> exn + string" where
  "str_int i = (if exceeds_str_digits i then Inl ValueError else Inr (py_str i))"

definition format_commas :: "int \<Rightarrow> exn + string" where
  "format_commas i = (if exceeds_str_digits i then Inl ValueError else Inr (py_commas i))"

text \<open>What the program writes to standard output: a printed line, or the prompt of
  an \<^verbatim>\<open>input\<close> call.\<close>

datatype out_event = Print string | Prompt string

text \<open>What standard input delivers to an \<^verbatim>\<open>input\<close> call: a line, or an interrupt
  from the keyboard; when nothing is left, the call meets the end of the input.\<close>

datatype stdin_event = Line string | CtrlC

text \<open>For a path, \<open>faults\<close> tells whether writing there fails: at \<^verbatim>\<open>open\<close>, or later,
  after a number of characters have reached the file; both raise \<^verbatim>\<open>OSError\<close> with
  the given message.\<close>

datatype io_fault = OpenFails string | WriteFails nat string

text \<open>The state the program runs in: the console, the file system, which holds the
  text of each file, and the memory left to the interpreter, counted in the list cells
  it can still allocate.\<close>

record world =
  stdin :: "stdin_event list"
  stdout :: "out_event list"
  files :: "string \<Rightarrow> string option"
  faults :: "string \<Rightarrow> io_fault option"
  free_cells :: nat

definition print :: "string \<Rightarrow> world \<Rightarrow> world" where
  "print s w = w\<lparr>stdout := stdout w @ [Print s]\<rparr>"

definition input :: "string \<Rightarrow> world \<Rightarrow> (exn + string) \<times> world" where
  "input prompt w =
     (let w' = w\<lparr>stdout := stdout w @ [Prompt prompt]\<rparr>
      in case stdin w of
           [] \<Rightarrow> (Inl EOFError, w')
         | CtrlC # rest \<Rightarrow> (Inl KeyboardInterrupt, w'\<lparr>stdin := rest\<rparr>)
         | Line s # rest \<Rightarrow> (Inr s, w'\<lparr>stdin := rest\<rparr>))"

text \<open>
  \<^verbatim>\<open>with open(filename, 'w', newline='', encoding='utf-8') as csvfile\<close> and the loop
  over the rows: the file is truncated, and each row is written in turn.
\<close>

definition write_rows :: "string \<Rightarrow> string list list \<Rightarrow> world \<Rightarrow> (exn + unit) \<times> world" where
  "write_rows path rows w =
     (let text = concat (map (writerow (CHR '';'')) rows)
      in case faults w path of
           Some (OpenFails msg) \<Rightarrow> (Inl (OSError msg), w)
         | Some (WriteFails n msg) \<Rightarrow>
             (Inl (OSError msg), w\<lparr>files := (files w)(path \<mapsto> take n text)\<rparr>)
         | None \<Rightarrow> (Inr (), w\<lparr>files := (files w)(path \<mapsto> text)\<rparr>))"

text \<open>\<^verbatim>\<open>os.path.getsize(filename)\<close>\<close>

definition getsize :: "string \<Rightarrow> world \<Rightarrow> exn + nat" where
  "getsize path w =
     (case files w path of
        None \<Rightarrow> Inl (OSError (''[Errno 2] No such file or directory: '' @ path))
      | Some text \<Rightarrow> Inr (length text))"

section \<open>The grid writer\<close>

text \<open>Lines 38 and 39 of \<^verbatim>\<open>create_grid_csv\<close>: the name the file is written under.\<close>

definition csv_filename :: "string \<Rightarrow> string" where
  "csv_filename filename = (if \<not> endswith filename ''.csv'' then filename @ ''.csv'' else filename)"

text \<open>\<^verbatim>\<open>sys.maxsize\<close> of a 64-bit interpreter, the largest index and list length.\<close>

definition sys_maxsize :: int where
  "sys_maxsize = 9223372036854775807"

text \<open>
  Lines 42 to 46: \<open>height\<close> rows of \<open>width\<close> zeros. \<^verbatim>\<open>range\<close> gives nothing for a height
  that is not positive, and then no row is made. Otherwise \<^verbatim>\<open>['0'] * width\<close> raises
  \<^verbatim>\<open>OverflowError\<close> for a width that is no index (above \<^verbatim>\<open>sys.maxsize\<close> or below
  \<^verbatim>\<open>-sys.maxsize - 1\<close>) and gives the empty row for any other width that is not positive.
  The rows take one list cell for each field and one for each row; when these are more
  than the interpreter can allocate, or more than any list can hold, \<^verbatim>\<open>MemoryError\<close> is
  raised.
\<close>

definition grid_data :: "int \<Rightarrow> int \<Rightarrow> world \<Rightarrow> exn + string list list" where
  "grid_data width height w =
     (if height \<le> 0 then Inr []
      else if sys_maxsize < width \<or> width < - sys_maxsize - 1 then Inl OverflowError
      else if sys_maxsize < height * (max width 0 + 1)
              \<or> int (free_cells w) < height * (max width 0 + 1) then Inl MemoryError
      else Inr (replicate (nat height) (replicate (nat width) ''0'')))"

text \<open>The \<^verbatim>\<open>except Exception as e\<close> clause of \<^verbatim>\<open>create_grid_csv\<close>.\<close>

definition create_failed :: "string \<Rightarrow> exn \<Rightarrow> world \<Rightarrow> (exn + bool) \<times> world" where
  "create_failed filename e w =
     (if is_Exception e
      then (Inr False, print (''Error creating '' @ filename @ '': '' @ str_exn e) w)
      else (Inl e, w))"

definition create_grid_csv :: "int \<Rightarrow> int \<Rightarrow> string \<Rightarrow> world \<Rightarrow> (exn + bool) \<times> world" where
  "create_grid_csv width height filename0 w0 =
     (let filename = csv_filename filename0
      in case grid_data width height w0 of
           Inl e \<Rightarrow> create_failed filename e w0
         | Inr rows \<Rightarrow>
     (case write_rows filename rows w0 of
        (Inl e, w1) \<Rightarrow> create_failed filename e w1
      | (Inr _, w1) \<Rightarrow>
     (case str_int width of
        Inl e \<Rightarrow> create_failed filename e w1
      | Inr width_str \<Rightarrow>
     (case str_int height of
        Inl e \<Rightarrow> create_failed filename e w1
      | Inr height_str \<Rightarrow>
     (let w2 = print (''Successfully created '' @ filename @ '' ('' @ width_str
                        @ ''x'' @ height_str @ '' grid)'') w1
      in case getsize filename w2 of
           Inl e \<Rightarrow> create_failed filename e w2
         | Inr nbytes \<Rightarrow>
             (Inr True, print (''File size: '' @ str_nat nbytes @ '' bytes'') w2))))))"

section \<open>The interactive prompt\<close>

datatype dimension = Width | Height

fun dim_prompt :: "dimension \<Rightarrow> string" where
  "dim_prompt Width = ''Enter grid width (columns): ''"
| "dim_prompt Height = ''Enter grid height (rows): ''"

fun dim_positive :: "dimension \<Rightarrow> string" where
  "dim_positive Width = ''Width must be greater than 0''"
| "dim_positive Height = ''Height must be greater than 0''"

fun large_prompt :: "dimension \<Rightarrow> int \<Rightarrow> string" where
  "large_prompt Width v = ''Large grid ('' @ py_str v @ '' columns). Continue? (y/n): ''"
| "large_prompt Height v = ''Large grid ('' @ py_str v @ '' rows). Continue? (y/n): ''"

text \<open>
  One pass through the body of a \<^verbatim>\<open>while True\<close> loop of \<^verbatim>\<open>get_user_input\<close>, lines
  82 to 90 for the width and 97 to 105 for the height; the two differ in their texts
  only. \<open>Inr None\<close> is \<^verbatim>\<open>continue\<close>, \<open>Inr (Some v)\<close> is \<^verbatim>\<open>break\<close> with the value read,
  and \<open>Inl\<close> is an exception leaving the \<^verbatim>\<open>try\<close> body: \<^verbatim>\<open>ValueError\<close> where
  \<^verbatim>\<open>int\<close> rejects the line.
\<close>

definition dimension_try :: "dimension \<Rightarrow> world \<Rightarrow> (exn + int option) \<times> world" where
  "dimension_try d w0 =
     (case input (dim_prompt d) w0 of
        (Inl e, w1) \<Rightarrow> (Inl e, w1)
      | (Inr line, w1) \<Rightarrow>
          (case py_int line of
             None \<Rightarrow> (Inl ValueError, w1)
           | Some v \<Rightarrow>
               if v \<le> 0 then (Inr None, print (dim_positive d) w1)
               else if v > 1000 then
                 (case input (large_prompt d v) w1 of
                    (Inl e, w2) \<Rightarrow> (Inl e, w2)
                  | (Inr confirm, w2) \<Rightarrow>
                      if py_lower confirm \<noteq> ''y'' then (Inr None, w2)
                      else (Inr (Some v), w2))
               else (Inr (Some v), w1)))"

text \<open>The loop with its \<^verbatim>\<open>except ValueError\<close> clause, lines 80 to 92 and 95 to 107.\<close>

function read_dimension :: "dimension \<Rightarrow> world \<Rightarrow> (exn + int) \<times> world" where
  "read_dimension d w0 =
     (case dimension_try d w0 of
        (Inl e, w1) \<Rightarrow>
          if e = ValueError then read_dimension d (print ''Please enter a valid number'' w1)
          else (Inl e, w1)
      | (Inr None, w1) \<Rightarrow> read_dimension d w1
      | (Inr (Some v), w1) \<Rightarrow> (Inr v, w1))"
  by pat_completeness auto

termination
proof (relation "measure (\<lambda>(d, w). length (stdin w))")
  show "wf (measure (\<lambda>(d, w). length (stdin w)))" by simp
next
  fix d :: dimension and w0 w1 :: world and x :: "exn + int option" and e :: exn
  assume "(x, w1) = dimension_try d w0" "x = Inl e" "e = ValueError"
  then have "dimension_try d w0 = (Inl ValueError, w1)" by simp
  then have "length (stdin w1) < length (stdin w0)"
    by (auto simp: dimension_try_def input_def print_def Let_def
        split: list.splits stdin_event.splits option.splits if_splits)
  then show "((d, print ''Please enter a valid number'' w1), d, w0)
               \<in> measure (\<lambda>(d, w). length (stdin w))"
    by (simp add: print_def)
next
  fix d :: dimension and w0 w1 :: world and x :: "exn + int option" and y :: "int option"
  assume "(x, w1) = dimension_try d w0" "x = Inr y" "y = None"
  then have "dimension_try d w0 = (Inr None, w1)" by simp
  then have "length (stdin w1) < length (stdin w0)"
    by (auto simp: dimension_try_def input_def print_def Let_def
        split: list.splits stdin_event.splits option.splits if_splits)
  then show "((d, w1), d, w0) \<in> measure (\<lambda>(d, w). length (stdin w))"
    by simp
qed

declare read_dimension.simps [simp del]

text \<open>The opening lines, 73 to 77.\<close>

definition banner :: "world \<Rightarrow> world" where
  "banner w =
     print (''generate trees based on the density parameter in config.json.'' @ [LF])
       (print ''All cells will be filled with zeros (empty) - the FireLayer will''
         (print ''This tool creates empty grid files for the Fire simulation.''
           (print (replicate 50 (CHR ''=''))
             (print ''Fire Simulation - Grid CSV Generator'' w))))"

text \<open>The summary, lines 118 to 125. A line whose number cannot be converted is not
  printed: the \<^verbatim>\<open>ValueError\<close> leaves the summary after the lines before it.\<close>

definition summary :: "int \<Rightarrow> int \<Rightarrow> string \<Rightarrow> world \<Rightarrow> (exn + unit) \<times> world" where
  "summary width height filename w0 =
     (let total_cells = width * height;
          estimated_size = total_cells * 2;
          w1 = print (LF # ''Grid Summary:'') w0
      in case str_int width of
           Inl e \<Rightarrow> (Inl e, w1)
         | Inr width_str \<Rightarrow>
     (case str_int height of
        Inl e \<Rightarrow> (Inl e, w1)
      | Inr height_str \<Rightarrow>
     (let w2 = print (''   Dimensions: '' @ width_str @ '' x '' @ height_str) w1
      in case format_commas total_cells of
           Inl e \<Rightarrow> (Inl e, w2)
         | Inr cells_str \<Rightarrow>
     (let w3 = print (''   Total cells: '' @ cells_str) w2
      in case format_commas estimated_size of
           Inl e \<Rightarrow> (Inl e, w3)
         | Inr size_str \<Rightarrow>
             (Inr (), print (''   Output file: '' @ filename)
                        (print (''   Estimated file size: ~'' @ size_str @ '' bytes'') w3))))))"

text \<open>Line 110: \<^verbatim>\<open>default_filename = f"grid_{width}x{height}.csv"\<close>\<close>

definition default_filename :: "int \<Rightarrow> int \<Rightarrow> string" where
  "default_filename width height = ''grid_'' @ py_str width @ ''x'' @ py_str height @ ''.csv''"

text \<open>
  The body of the \<^verbatim>\<open>try\<close> of \<^verbatim>\<open>get_user_input\<close>. The result is \<open>Some\<close> of the
  width, the height and the filename, or \<open>None\<close> for the source's
  \<^verbatim>\<open>(None, None, None)\<close>.
\<close>

definition get_user_input_body :: "world \<Rightarrow> (exn + (int \<times> int \<times> string) option) \<times> world" where
  "get_user_input_body w0 =
     (case read_dimension Width (banner w0) of
        (Inl e, w1) \<Rightarrow> (Inl e, w1)
      | (Inr width, w1) \<Rightarrow>
     (case read_dimension Height w1 of
        (Inl e, w2) \<Rightarrow> (Inl e, w2)
      | (Inr height, w2) \<Rightarrow>
     (let w3 = print (LF # ''Suggested filename: '' @ default_filename width height) w2
      in case input ''Enter filename (or press Enter for default): '' w3 of
           (Inl e, w4) \<Rightarrow> (Inl e, w4)
         | (Inr line, w4) \<Rightarrow>
     (let stripped = py_strip line;
          filename = (if stripped = [] then default_filename width height else stripped)
      in case summary width height filename w4 of
           (Inl e, w5) \<Rightarrow> (Inl e, w5)
         | (Inr _, w5) \<Rightarrow>
     (case input (LF # ''Create this grid file? (y/n): '') w5 of
        (Inl e, w6) \<Rightarrow> (Inl e, w6)
      | (Inr confirm, w6) \<Rightarrow>
          if py_lower confirm \<noteq> ''y''
          then (Inr None, print ''Operation cancelled'' w6)
          else (Inr (Some (width, height, filename)), w6))))))"

text \<open>\<^verbatim>\<open>get_user_input\<close> with its \<^verbatim>\<open>except KeyboardInterrupt\<close> clause.\<close>

definition get_user_input :: "world \<Rightarrow> (exn + (int \<times> int \<times> string) option) \<times> world" where
  "get_user_input w0 =
     (case get_user_input_body w0 of
        (Inl KeyboardInterrupt, w1) \<Rightarrow> (Inr None, print (LF # ''Operation cancelled by user'') w1)
      | r \<Rightarrow> r)"

section \<open>The driver\<close>

text \<open>The two \<^verbatim>\<open>except\<close> clauses of \<^verbatim>\<open>main\<close>, in the source's order.\<close>

definition main_failed :: "exn \<Rightarrow> world \<Rightarrow> (exn + unit) \<times> world" where
  "main_failed e w =
     (if e = KeyboardInterrupt then (Inr (), print (LF # ''Goodbye!'') w)
      else if is_Exception e then (Inr (), print (''Unexpected error: '' @ str_exn e) w)
      else (Inl e, w))"

definition main :: "world \<Rightarrow> (exn + unit) \<times> world" where
  "main w0 =
     (case get_user_input w0 of
        (Inl e, w1) \<Rightarrow> main_failed e w1
      | (Inr None, w1) \<Rightarrow> (Inr (), print ''Goodbye!'' w1)
      | (Inr (Some (width, height, filename)), w1) \<Rightarrow>
          (case create_grid_csv width height filename w1 of
             (Inl e, w2) \<Rightarrow> main_failed e w2
           | (Inr ok, w2) \<Rightarrow> (Inr (), w2)))"

section \<open>Reading a grid file back\<close>

text \<open>
  The lines of a text as Python's universal newlines and \<^verbatim>\<open>str.splitlines\<close> give them:
  a line ends at \<^verbatim>\<open>'\r\n'\<close>, at a lone \<^verbatim>\<open>'\r'\<close> or at a lone \<^verbatim>\<open>'\n'\<close>, the terminators
  are not part of the lines, and nothing follows the last terminator.
\<close>

fun splitlines :: "string \<Rightarrow> string list" where
  "splitlines [] = []"
| "splitlines (c # cs) =
     (if c = LF then [] # splitlines cs
      else if c = CR then
        (case cs of
           [] \<Rightarrow> [[]]
         | d # ds \<Rightarrow> if d = LF then [] # splitlines ds else [] # splitlines cs)
      else (case splitlines cs of
              [] \<Rightarrow> [[c]]
            | l # ls \<Rightarrow> (c # l) # ls))"

text \<open>A world with the given input waiting, nothing printed, no files, no faults and
  room for a million list cells.\<close>

definition initial_world :: "stdin_event list \<Rightarrow> world" where
  "initial_world ins =
     \<lparr>stdin = ins, stdout = [], files = Map.empty, faults = Map.empty, free_cells = 1000000\<rparr>"

section \<open>Properties of the grid writer\<close>

lemma CR_neq_LF [simp]: "CR \<noteq> LF"
  by (simp add: CR_def LF_def)

lemma endswith_iff: "endswith s suffix \<longleftrightarrow> (\<exists>stem. s = stem @ suffix)"
proof
  assume "endswith s suffix"
  then have "s = take (length s - length suffix) s @ suffix"
    by (metis append_take_drop_id endswith_def)
  then show "\<exists>stem. s = stem @ suffix" ..
next
  assume "\<exists>stem. s = stem @ suffix"
  then show "endswith s suffix" by (auto simp: endswith_def)
qed

lemma endswith_csv_filename: "endswith (csv_filename filename) ''.csv''"
  by (simp add: csv_filename_def endswith_iff)

lemma files_write_rows_other:
  "p \<noteq> path \<Longrightarrow> files (snd (write_rows path rows w)) p = files w p"
  by (simp add: write_rows_def Let_def split: option.splits io_fault.splits)

lemma files_print [simp]: "files (print s w) = files w"
  by (simp add: print_def)

lemma files_create_failed [simp]: "files (snd (create_failed f e w)) = files w"
  by (simp add: create_failed_def)

lemma write_rows_ok:
  "faults w path = None \<Longrightarrow>
   write_rows path rows w =
     (Inr (), w\<lparr>files := (files w)(path \<mapsto> concat (map (writerow (CHR '';'')) rows))\<rparr>)"
  by (simp add: write_rows_def)

lemma csv_field_zero: "csv_field (CHR '';'') ''0'' = ''0''"
  by (simp add: csv_field_def needs_quotes_def quotechar_def CR_def LF_def)

lemma writerow_zeros:
  "0 < n \<Longrightarrow>
   writerow (CHR '';'') (replicate n ''0'') = join '';'' (replicate n ''0'') @ [CR, LF]"
  by (cases n) (simp_all add: writerow_def csv_field_zero lineterminator_def)

lemma length_join_zeros: "length (join '';'' (replicate (Suc n) ''0'')) = 2 * n + 1"
  by (induction n) simp_all

lemma split_join_zeros:
  "split_on (CHR '';'') (join '';'' (replicate (Suc n) ''0'')) = replicate (Suc n) ''0''"
  by (induction n) simp_all

lemma set_join_zeros: "set (join '';'' (replicate (Suc n) ''0'')) \<subseteq> {CHR ''0'', CHR '';''}"
  by (induction n) auto

lemma zeros_no_newline:
  "CR \<notin> set (join '';'' (replicate (Suc n) ''0''))
   \<and> LF \<notin> set (join '';'' (replicate (Suc n) ''0''))"
  using set_join_zeros [of n] by (auto simp: CR_def LF_def)

lemma splitlines_line:
  "CR \<notin> set r \<Longrightarrow> LF \<notin> set r \<Longrightarrow> splitlines (r @ CR # LF # rest) = r # splitlines rest"
  by (induction r) auto

lemma splitlines_grid:
  "CR \<notin> set r \<Longrightarrow> LF \<notin> set r \<Longrightarrow>
   splitlines (concat (replicate h (r @ [CR, LF]))) = replicate h r"
  by (induction h) (simp_all add: splitlines_line)

lemma length_concat_replicate: "length (concat (replicate n xs)) = n * length xs"
  by (induction n) simp_all

lemma files_create_grid_csv:
  "files (snd (create_grid_csv width height filename w)) =
   (case grid_data width height w of
      Inl e \<Rightarrow> files w
    | Inr rows \<Rightarrow> files (snd (write_rows (csv_filename filename) rows w)))"
  by (simp add: create_grid_csv_def Let_def split: prod.splits sum.splits)

lemma create_failed_False: "is_Exception e \<Longrightarrow> fst (create_failed f e w) = Inr False"
  by (simp add: create_failed_def)

subsection \<open>The limits of the interpreter\<close>

lemma length_str_nat_le: "n < 10 ^ k \<Longrightarrow> 0 < k \<Longrightarrow> length (str_nat n) \<le> k"
proof (induction k arbitrary: n)
  case 0
  then show ?case by simp
next
  case (Suc k)
  show ?case
  proof (cases "n < 10")
    case True
    then show ?thesis by (subst str_nat.simps) simp
  next
    case False
    with Suc.prems have "n div 10 < 10 ^ k" by simp
    moreover have "0 < k"
    proof (rule ccontr)
      assume "\<not> 0 < k"
      with Suc.prems False show False by simp
    qed
    ultimately have "length (str_nat (n div 10)) \<le> k" by (rule Suc.IH)
    with False show ?thesis by (subst str_nat.simps) simp
  qed
qed

lemma length_str_nat_mono: "a \<le> b \<Longrightarrow> length (str_nat a) \<le> length (str_nat b)"
proof (induction b arbitrary: a rule: str_nat.induct)
  case (1 b)
  show ?case
  proof (cases "b < 10")
    case True
    with "1.prems" have "a < 10" by simp
    with True show ?thesis by (subst (1 2) str_nat.simps) simp
  next
    case False
    show ?thesis
    proof (cases "a < 10")
      case True
      with False show ?thesis by (subst (1 2) str_nat.simps) simp
    next
      case a: False
      from "1.prems" have "a div 10 \<le> b div 10" by (rule div_le_mono)
      with False have "length (str_nat (a div 10)) \<le> length (str_nat (b div 10))"
        by (intro "1.IH") simp_all
      with False a show ?thesis by (subst (1 2) str_nat.simps) simp
    qed
  qed
qed

lemma exceeds_str_digits_mono:
  "\<bar>i\<bar> \<le> \<bar>j\<bar> \<Longrightarrow> \<not> exceeds_str_digits j \<Longrightarrow> \<not> exceeds_str_digits i"
proof -
  assume "\<bar>i\<bar> \<le> \<bar>j\<bar>" and j: "\<not> exceeds_str_digits j"
  then have "nat \<bar>i\<bar> \<le> nat \<bar>j\<bar>" by simp
  then have "length (str_nat (nat \<bar>i\<bar>)) \<le> length (str_nat (nat \<bar>j\<bar>))"
    by (rule length_str_nat_mono)
  with j show ?thesis unfolding exceeds_str_digits_def by linarith
qed

lemma index_sized_converts:
  assumes "\<bar>i\<bar> \<le> 2 * sys_maxsize"
  shows "\<not> exceeds_str_digits i"
proof -
  have "nat \<bar>i\<bar> < 10 ^ 20" using assms by (simp add: sys_maxsize_def)
  then have "length (str_nat (nat \<bar>i\<bar>)) \<le> 20" by (rule length_str_nat_le) simp
  then show ?thesis by (simp add: exceeds_str_digits_def)
qed

lemma str_int_ok: "\<not> exceeds_str_digits i \<Longrightarrow> str_int i = Inr (py_str i)"
  by (simp add: str_int_def)

lemma format_commas_ok: "\<not> exceeds_str_digits i \<Longrightarrow> format_commas i = Inr (py_commas i)"
  by (simp add: format_commas_def)

text \<open>When the rows of a grid with positive sides are made.\<close>

lemma grid_data_positive:
  assumes "0 < width" and "0 < height"
  shows "grid_data width height w =
    (if height * (width + 1) \<le> sys_maxsize \<and> height * (width + 1) \<le> int (free_cells w)
     then Inr (replicate (nat height) (replicate (nat width) ''0''))
     else if sys_maxsize < width then Inl OverflowError else Inl MemoryError)"
proof -
  have m: "max width 0 = width" using assms(1) by simp
  have "width < height * (width + 1)"
  proof -
    have "1 * (width + 1) \<le> height * (width + 1)"
      using assms by (intro mult_right_mono) simp_all
    then show ?thesis by simp
  qed
  then have big: "sys_maxsize < width \<Longrightarrow> \<not> height * (width + 1) \<le> sys_maxsize" by simp
  have low: "\<not> width < - sys_maxsize - 1" using assms(1) by (simp add: sys_maxsize_def)
  show ?thesis
    using assms big low by (auto simp: grid_data_def m)
qed

lemma grid_data_sides:
  assumes "0 < width" and "0 < height" and "height * (width + 1) \<le> sys_maxsize"
  shows "\<not> exceeds_str_digits width" and "\<not> exceeds_str_digits height"
    and "\<not> exceeds_str_digits (width * height)" and "\<not> exceeds_str_digits (width * height * 2)"
proof -
  have e: "height * (width + 1) = width * height + height" by (simp add: algebra_simps)
  have wh: "width * height \<le> sys_maxsize" using assms(2,3) e by simp
  have "1 * width \<le> height * width" using assms by (intro mult_right_mono) simp_all
  then have w: "width \<le> sys_maxsize" using wh by (simp add: mult.commute)
  have h: "height \<le> sys_maxsize" using assms(1,2,3) e
    by (smt (verit) mult_pos_pos)
  have p: "0 < width * height" using assms by simp
  show "\<not> exceeds_str_digits width" using w assms(1) by (intro index_sized_converts) simp
  show "\<not> exceeds_str_digits height" using h assms(2) by (intro index_sized_converts) simp
  show "\<not> exceeds_str_digits (width * height)" using wh p by (intro index_sized_converts) simp
  show "\<not> exceeds_str_digits (width * height * 2)"
    using wh p by (intro index_sized_converts) simp
qed

lemma grid_text:
  assumes "0 < width" "0 < height"
  shows "concat (map (writerow (CHR '';'')) (replicate (nat height) (replicate (nat width) ''0''))) =
         concat (replicate (nat height) (join '';'' (replicate (nat width) ''0'') @ [CR, LF]))"
proof -
  have "0 < nat width" using assms by simp
  then show ?thesis
    by (simp add: map_replicate_const writerow_zeros)
qed

text \<open>What a call does when nothing fails.\<close>

lemma create_grid_csv_ok:
  assumes "faults w (csv_filename filename) = None"
    and "grid_data width height w = Inr rows"
    and "\<not> exceeds_str_digits width" and "\<not> exceeds_str_digits height"
  shows "create_grid_csv width height filename w =
    (Inr True,
     print (''File size: ''
            @ str_nat (length (concat (map (writerow (CHR '';'')) rows)))
            @ '' bytes'')
      (print (''Successfully created '' @ csv_filename filename @ '' ('' @ py_str width
                @ ''x'' @ py_str height @ '' grid)'')
        (w\<lparr>files := (files w)(csv_filename filename \<mapsto>
              concat (map (writerow (CHR '';'')) rows))\<rparr>)))"
  using assms
  by (simp add: create_grid_csv_def Let_def write_rows_ok getsize_def print_def str_int_ok)

lemma create_grid_csv_positive_ok:
  assumes "0 < width" and "0 < height"
    and "faults w (csv_filename filename) = None"
    and "height * (width + 1) \<le> sys_maxsize"
    and "height * (width + 1) \<le> int (free_cells w)"
  shows "create_grid_csv width height filename w =
    (Inr True,
     print (''File size: ''
            @ str_nat (length (concat (replicate (nat height)
                 (join '';'' (replicate (nat width) ''0'') @ [CR, LF]))))
            @ '' bytes'')
      (print (''Successfully created '' @ csv_filename filename @ '' ('' @ py_str width
                @ ''x'' @ py_str height @ '' grid)'')
        (w\<lparr>files := (files w)(csv_filename filename \<mapsto>
              concat (replicate (nat height)
                 (join '';'' (replicate (nat width) ''0'') @ [CR, LF])))\<rparr>)))"
proof -
  have g: "grid_data width height w = Inr (replicate (nat height) (replicate (nat width) ''0''))"
    using assms(4,5) by (simp add: grid_data_positive [OF assms(1,2)])
  show ?thesis
    using create_grid_csv_ok [OF assms(3) g grid_data_sides(1,2) [OF assms(1,2,4)]]
    by (simp only: grid_text [OF assms(1,2)])
qed

lemma create_grid_csv_positive_fails:
  assumes "0 < width" and "0 < height"
    and "faults w (csv_filename filename) \<noteq> None
         \<or> \<not> height * (width + 1) \<le> sys_maxsize
         \<or> \<not> height * (width + 1) \<le> int (free_cells w)"
  shows "fst (create_grid_csv width height filename w) = Inr False"
proof (cases "height * (width + 1) \<le> sys_maxsize \<and> height * (width + 1) \<le> int (free_cells w)")
  case False
  then have "grid_data width height w = Inl OverflowError \<or> grid_data width height w = Inl MemoryError"
    by (simp add: grid_data_positive [OF assms(1,2)])
  then show ?thesis
    by (auto simp: create_grid_csv_def Let_def create_failed_def)
next
  case True
  then have g: "grid_data width height w = Inr (replicate (nat height) (replicate (nat width) ''0''))"
    by (simp add: grid_data_positive [OF assms(1,2)])
  from True assms(3) obtain fault where "faults w (csv_filename filename) = Some fault" by auto
  then show ?thesis
    by (cases fault) (simp_all add: create_grid_csv_def Let_def g write_rows_def create_failed_def)
qed

subsection \<open>The shape of the file\<close>

text \<open>
  Claim C1. For every width and height above zero and every filename, the call returns
  \<open>True\<close> exactly when writing the target does not fail and the rows fit the memory of
  the interpreter. Whenever it returns \<open>True\<close>, the file under the target name is
  \<open>height\<close> rows, each the \<open>width\<close> fields \<open>0\<close> joined by \<open>;\<close> and ended by the writer's
  line terminator (carriage return, line feed). Read back, the text has exactly \<open>height\<close>
  lines, and every line splits at \<open>;\<close> into exactly \<open>width\<close> fields, each the string
  \<open>0\<close>: there is no header, no footer and no other line.
\<close>

theorem grid_file_shape:
  assumes "0 < width" and "0 < height"
  shows "(fst (create_grid_csv width height filename w) = Inr True \<longleftrightarrow>
            faults w (csv_filename filename) = None
          \<and> height * (width + 1) \<le> sys_maxsize
          \<and> height * (width + 1) \<le> int (free_cells w))
     \<and> (fst (create_grid_csv width height filename w) = Inr True \<longrightarrow>
          (\<exists>text.
              files (snd (create_grid_csv width height filename w)) (csv_filename filename)
                = Some text
            \<and> text = concat (replicate (nat height)
                               (join '';'' (replicate (nat width) ''0'') @ [CR, LF]))
            \<and> length (splitlines text) = nat height
            \<and> map (split_on (CHR '';'')) (splitlines text)
                = replicate (nat height) (replicate (nat width) ''0'')))"
proof -
  let ?ok = "faults w (csv_filename filename) = None
          \<and> height * (width + 1) \<le> sys_maxsize
          \<and> height * (width + 1) \<le> int (free_cells w)"
  let ?row = "join '';'' (replicate (nat width) ''0'')"
  let ?text = "concat (replicate (nat height) (?row @ [CR, LF]))"
  have iff: "fst (create_grid_csv width height filename w) = Inr True \<longleftrightarrow> ?ok"
  proof (cases ?ok)
    case True
    then show ?thesis
      using create_grid_csv_positive_ok [OF assms, of w filename] by simp
  next
    case False
    then have "faults w (csv_filename filename) \<noteq> None
         \<or> \<not> height * (width + 1) \<le> sys_maxsize
         \<or> \<not> height * (width + 1) \<le> int (free_cells w)"
      by auto
    then have "fst (create_grid_csv width height filename w) = Inr False"
      by (rule create_grid_csv_positive_fails [OF assms])
    with False show ?thesis by simp
  qed
  obtain n where n: "nat width = Suc n"
    using assms(1) by (cases "nat width") simp_all
  have nl: "CR \<notin> set ?row" "LF \<notin> set ?row"
    using zeros_no_newline [of n] by (simp_all add: n)
  have lines: "splitlines ?text = replicate (nat height) ?row"
    using nl by (rule splitlines_grid)
  have fields: "split_on (CHR '';'') ?row = replicate (nat width) ''0''"
    unfolding n by (rule split_join_zeros)
  have shape: "\<exists>text.
              files (snd (create_grid_csv width height filename w)) (csv_filename filename)
                = Some text
            \<and> text = ?text
            \<and> length (splitlines text) = nat height
            \<and> map (split_on (CHR '';'')) (splitlines text)
                = replicate (nat height) (replicate (nat width) ''0'')"
    if "fst (create_grid_csv width height filename w) = Inr True"
  proof -
    from that iff have ok: ?ok by simp
    then have "files (snd (create_grid_csv width height filename w)) (csv_filename filename)
                 = Some ?text"
      using create_grid_csv_positive_ok [OF assms, of w filename] by simp
    then show ?thesis using lines fields by simp
  qed
  show ?thesis using iff shape by blast
qed

theorem grid_file_shape_witness:
  "(0::int) < 3 \<and> (0::int) < 2
   \<and> fst (create_grid_csv 3 2 ''grid'' (initial_world [])) = Inr True
   \<and> (\<exists>text. files (snd (create_grid_csv 3 2 ''grid'' (initial_world []))) ''grid.csv'' = Some text
        \<and> length (splitlines text) = 2
        \<and> map (split_on (CHR '';'')) (splitlines text) = [[''0'', ''0'', ''0''], [''0'', ''0'', ''0'']])"
proof -
  have name: "csv_filename ''grid'' = ''grid.csv''"
    by (simp add: csv_filename_def endswith_def)
  have ok: "faults (initial_world []) (csv_filename ''grid'') = None
          \<and> 2 * (3 + 1) \<le> sys_maxsize
          \<and> 2 * (3 + 1) \<le> int (free_cells (initial_world []))"
    by (simp add: initial_world_def sys_maxsize_def)
  have three: "replicate (nat 3) ''0'' = [''0'', ''0'', ''0'']"
    by (simp add: eval_nat_numeral)
  have two: "replicate (nat 2) [''0'', ''0'', ''0''] = [[''0'', ''0'', ''0''], [''0'', ''0'', ''0'']]"
    by (simp add: eval_nat_numeral)
  note t = grid_file_shape [of 3 2 "''grid''" "initial_world []"]
  have res: "fst (create_grid_csv 3 2 ''grid'' (initial_world [])) = Inr True"
    using t ok by simp
  with t have "\<exists>text.
              files (snd (create_grid_csv 3 2 ''grid'' (initial_world []))) (csv_filename ''grid'')
                = Some text
            \<and> text = concat (replicate (nat 2) (join '';'' (replicate (nat 3) ''0'') @ [CR, LF]))
            \<and> length (splitlines text) = nat 2
            \<and> map (split_on (CHR '';'')) (splitlines text)
                = replicate (nat 2) (replicate (nat 3) ''0'')"
    by simp
  then obtain content where
    "files (snd (create_grid_csv 3 2 ''grid'' (initial_world []))) (csv_filename ''grid'') = Some content"
    "length (splitlines content) = nat 2"
    "map (split_on (CHR '';'')) (splitlines content) = replicate (nat 2) (replicate (nat 3) ''0'')"
    by blast
  then have "files (snd (create_grid_csv 3 2 ''grid'' (initial_world []))) ''grid.csv'' = Some content
        \<and> length (splitlines content) = 2
        \<and> map (split_on (CHR '';'')) (splitlines content) = [[''0'', ''0'', ''0''], [''0'', ''0'', ''0'']]"
    unfolding name three two by simp
  then show ?thesis using res by (intro conjI exI [of _ content]) simp_all
qed

subsection \<open>The scenario of a 3 by 2 grid\<close>

lemma test_grid_result:
  "create_grid_csv 3 2 ''test'' (initial_world []) =
     (Inr True,
      print (''File size: '' @ str_nat (length (''0;0;0'' @ [CR, LF] @ ''0;0;0'' @ [CR, LF]))
             @ '' bytes'')
       (print (''Successfully created test.csv ('' @ py_str 3 @ ''x'' @ py_str 2 @ '' grid)'')
         ((initial_world [])\<lparr>files := (files (initial_world []))
             (''test.csv'' \<mapsto> ''0;0;0'' @ [CR, LF] @ ''0;0;0'' @ [CR, LF])\<rparr>)))"
proof -
  have name: "csv_filename ''test'' = ''test.csv''"
    by (simp add: csv_filename_def endswith_def)
  have content: "concat (replicate (nat 2) (join '';'' (replicate (nat 3) ''0'') @ [CR, LF]))
                   = ''0;0;0'' @ [CR, LF] @ ''0;0;0'' @ [CR, LF]"
    by (simp add: eval_nat_numeral)
  have "create_grid_csv 3 2 ''test'' (initial_world []) =
    (Inr True,
     print (''File size: ''
            @ str_nat (length (concat (replicate (nat 2)
                 (join '';'' (replicate (nat 3) ''0'') @ [CR, LF]))))
            @ '' bytes'')
      (print (''Successfully created '' @ csv_filename ''test'' @ '' ('' @ py_str 3
                @ ''x'' @ py_str 2 @ '' grid)'')
        ((initial_world [])\<lparr>files := (files (initial_world []))(csv_filename ''test'' \<mapsto>
              concat (replicate (nat 2)
                 (join '';'' (replicate (nat 3) ''0'') @ [CR, LF])))\<rparr>)))"
    by (rule create_grid_csv_positive_ok) (simp_all add: initial_world_def sys_maxsize_def)
  then show ?thesis unfolding content name by simp
qed

text \<open>
  Claim C2, as stated, fails: the two lines of \<^verbatim>\<open>test.csv\<close> do not end with a single line
  feed. The file is not the text \<^verbatim>\<open>0;0;0\n0;0;0\n\<close>.
\<close>

theorem test_grid_not_lf_terminated:
  "files (snd (create_grid_csv 3 2 ''test'' (initial_world []))) ''test.csv''
     \<noteq> Some (''0;0;0'' @ [LF] @ ''0;0;0'' @ [LF])"
  by (simp add: test_grid_result CR_def LF_def)

text \<open>
  Claim C2, amended. Width 3, height 2 and filename \<^verbatim>\<open>test\<close> create the file \<^verbatim>\<open>test.csv\<close>
  whose exact content is the two lines \<^verbatim>\<open>0;0;0\<close>, each ended by a carriage return and a
  line feed, the csv writer's own line terminator: the 14 characters
  \<^verbatim>\<open>0;0;0\r\n0;0;0\r\n\<close>.
\<close>

theorem test_grid_content:
  "fst (create_grid_csv 3 2 ''test'' (initial_world [])) = Inr True
   \<and> files (snd (create_grid_csv 3 2 ''test'' (initial_world []))) ''test.csv''
       = Some (''0;0;0'' @ [CR, LF] @ ''0;0;0'' @ [CR, LF])"
  by (simp add: test_grid_result)

subsection \<open>Failures of the write\<close>

text \<open>
  Claim C3. For every width, height and filename, when writing the target fails, at
  \<^verbatim>\<open>open\<close> or later, with a message \<open>msg\<close>, the call does not raise: it returns \<open>False\<close>.
  When the rows were made, so that the write is attempted, what it prints is the one
  line naming the target file and the message; when they were not, it is the one line
  naming the target file and the failure of making them. A failure at \<^verbatim>\<open>open\<close> leaves
  every file as it was.
\<close>

theorem create_grid_csv_io_failure:
  assumes "faults w (csv_filename filename) = Some fault"
    and "fault = OpenFails msg \<or> fault = WriteFails n msg"
  shows "fst (create_grid_csv width height filename w) = Inr False
     \<and> (grid_data width height w = Inr rows \<longrightarrow>
          stdout (snd (create_grid_csv width height filename w)) =
            stdout w @ [Print (''Error creating '' @ csv_filename filename @ '': '' @ msg)])
     \<and> (grid_data width height w = Inl e \<longrightarrow>
          stdout (snd (create_grid_csv width height filename w)) =
            stdout w @ [Print (''Error creating '' @ csv_filename filename @ '': '' @ str_exn e)])
     \<and> (fault = OpenFails msg \<longrightarrow> files (snd (create_grid_csv width height filename w)) = files w)"
proof (cases "grid_data width height w")
  case (Inl e')
  then have "e' = OverflowError \<or> e' = MemoryError"
    by (auto simp: grid_data_def split: if_splits)
  with Inl show ?thesis
    by (auto simp: create_grid_csv_def Let_def create_failed_def print_def)
next
  case (Inr rows')
  with assms show ?thesis
    by (auto simp: create_grid_csv_def Let_def write_rows_def create_failed_def print_def)
qed

theorem create_grid_csv_io_failure_witness:
  "faults ((initial_world [])\<lparr>faults := [''nodir/t.csv'' \<mapsto> OpenFails ''No such file or directory'']\<rparr>)
     (csv_filename ''nodir/t'') = Some (OpenFails ''No such file or directory'')
   \<and> grid_data 3 2
        ((initial_world [])\<lparr>faults := [''nodir/t.csv'' \<mapsto> OpenFails ''No such file or directory'']\<rparr>)
       = Inr [[''0'', ''0'', ''0''], [''0'', ''0'', ''0'']]
   \<and> fst (create_grid_csv 3 2 ''nodir/t''
        ((initial_world [])\<lparr>faults := [''nodir/t.csv'' \<mapsto> OpenFails ''No such file or directory'']\<rparr>))
       = Inr False
   \<and> stdout (snd (create_grid_csv 3 2 ''nodir/t''
        ((initial_world [])\<lparr>faults := [''nodir/t.csv'' \<mapsto> OpenFails ''No such file or directory'']\<rparr>)))
       = [Print ''Error creating nodir/t.csv: No such file or directory'']"
proof -
  let ?w = "(initial_world [])\<lparr>faults := [''nodir/t.csv'' \<mapsto> OpenFails ''No such file or directory'']\<rparr>"
  have name: "csv_filename ''nodir/t'' = ''nodir/t.csv''"
    by (simp add: csv_filename_def endswith_def)
  have bad: "faults ?w (csv_filename ''nodir/t'') = Some (OpenFails ''No such file or directory'')"
    by (simp add: name)
  have out: "stdout ?w = []"
    by (simp add: initial_world_def)
  have built: "grid_data 3 2 ?w = Inr [[''0'', ''0'', ''0''], [''0'', ''0'', ''0'']]"
    by (simp add: grid_data_def sys_maxsize_def initial_world_def numeral_2_eq_2 numeral_3_eq_3)
  have t: "fst (create_grid_csv 3 2 ''nodir/t'' ?w) = Inr False
     \<and> (grid_data 3 2 ?w = Inr [[''0'', ''0'', ''0''], [''0'', ''0'', ''0'']] \<longrightarrow>
          stdout (snd (create_grid_csv 3 2 ''nodir/t'' ?w)) =
            stdout ?w @ [Print (''Error creating '' @ csv_filename ''nodir/t'' @ '': ''
                                @ ''No such file or directory'')])
     \<and> (grid_data 3 2 ?w = Inl MemoryError \<longrightarrow>
          stdout (snd (create_grid_csv 3 2 ''nodir/t'' ?w)) =
            stdout ?w @ [Print (''Error creating '' @ csv_filename ''nodir/t'' @ '': ''
                                @ str_exn MemoryError)])
     \<and> (OpenFails ''No such file or directory'' = OpenFails ''No such file or directory''
          \<longrightarrow> files (snd (create_grid_csv 3 2 ''nodir/t'' ?w)) = files ?w)"
    by (rule create_grid_csv_io_failure [where n = 0]) (simp_all only: bad simp_thms)
  have 1: "fst (create_grid_csv 3 2 ''nodir/t'' ?w) = Inr False" using t by blast
  have 2: "stdout (snd (create_grid_csv 3 2 ''nodir/t'' ?w)) =
            stdout ?w @ [Print (''Error creating '' @ csv_filename ''nodir/t'' @ '': ''
                                @ ''No such file or directory'')]"
    using t built by blast
  have 3: "stdout (snd (create_grid_csv 3 2 ''nodir/t'' ?w))
             = [Print ''Error creating nodir/t.csv: No such file or directory'']"
    unfolding 2 out name by simp
  show ?thesis
    by (intro conjI bad built 1 3)
qed

subsection \<open>The target name\<close>

text \<open>
  Claim C5. A filename that does not end in \<^verbatim>\<open>.csv\<close> is written under the name with one
  \<^verbatim>\<open>.csv\<close> appended, a filename that ends in \<^verbatim>\<open>.csv\<close> under the name itself; the target
  name always ends in \<^verbatim>\<open>.csv\<close>. The call changes no file but the one of that name, and
  when the rows were made and the write does not fail the file of that name exists
  afterwards.
\<close>

theorem csv_filename_suffix:
  "(\<not> endswith filename ''.csv'' \<longrightarrow> csv_filename filename = filename @ ''.csv'')
   \<and> (endswith filename ''.csv'' \<longrightarrow> csv_filename filename = filename)
   \<and> endswith (csv_filename filename) ''.csv''
   \<and> (\<forall>p. p \<noteq> csv_filename filename \<longrightarrow>
          files (snd (create_grid_csv width height filename w)) p = files w p)
   \<and> (faults w (csv_filename filename) = None \<and> grid_data width height w = Inr rows \<longrightarrow>
          files (snd (create_grid_csv width height filename w)) (csv_filename filename) \<noteq> None)"
proof (intro conjI allI impI)
  show "\<not> endswith filename ''.csv'' \<Longrightarrow> csv_filename filename = filename @ ''.csv''"
    by (simp add: csv_filename_def)
  show "endswith filename ''.csv'' \<Longrightarrow> csv_filename filename = filename"
    by (simp add: csv_filename_def)
  show "endswith (csv_filename filename) ''.csv''"
    by (rule endswith_csv_filename)
  show "\<And>p. p \<noteq> csv_filename filename \<Longrightarrow>
          files (snd (create_grid_csv width height filename w)) p = files w p"
    by (simp add: files_create_grid_csv files_write_rows_other split: sum.splits)
  show "faults w (csv_filename filename) = None \<and> grid_data width height w = Inr rows \<Longrightarrow>
          files (snd (create_grid_csv width height filename w)) (csv_filename filename) \<noteq> None"
    by (simp add: files_create_grid_csv write_rows_ok)
qed

theorem csv_filename_suffix_witness:
  "\<not> endswith ''test'' ''.csv'' \<and> csv_filename ''test'' = ''test.csv''
   \<and> endswith ''a.csv'' ''.csv'' \<and> csv_filename ''a.csv'' = ''a.csv''
   \<and> ''other'' \<noteq> csv_filename ''test''
   \<and> files (snd (create_grid_csv 3 2 ''test'' (initial_world []))) ''other''
       = files (initial_world []) ''other''
   \<and> faults (initial_world []) (csv_filename ''test'') = None
   \<and> grid_data 3 2 (initial_world []) = Inr [[''0'', ''0'', ''0''], [''0'', ''0'', ''0'']]
   \<and> files (snd (create_grid_csv 3 2 ''test'' (initial_world []))) (csv_filename ''test'') \<noteq> None"
proof -
  have a: "\<not> endswith ''test'' ''.csv''" and b: "endswith ''a.csv'' ''.csv''"
    by (simp_all add: endswith_def)
  have c: "faults (initial_world []) (csv_filename ''test'') = None"
    by (simp add: initial_world_def)
  have d: "''other'' \<noteq> csv_filename ''test''"
    by (simp add: csv_filename_def)
  have g: "grid_data 3 2 (initial_world []) = Inr [[''0'', ''0'', ''0''], [''0'', ''0'', ''0'']]"
    by (simp add: grid_data_def sys_maxsize_def initial_world_def numeral_2_eq_2 numeral_3_eq_3)
  note t = csv_filename_suffix [of "''test''" 3 2 "initial_world []"
      "[[''0'', ''0'', ''0''], [''0'', ''0'', ''0'']]"]
  note u = csv_filename_suffix [of "''a.csv''" 3 2 "initial_world []"]
  have 1: "csv_filename ''test'' = ''test'' @ ''.csv''" using t a by blast
  have 2: "csv_filename ''a.csv'' = ''a.csv''" using u b by blast
  have 3: "files (snd (create_grid_csv 3 2 ''test'' (initial_world []))) ''other''
       = files (initial_world []) ''other''" using t d by blast
  have 4: "files (snd (create_grid_csv 3 2 ''test'' (initial_world []))) (csv_filename ''test'') \<noteq> None"
    using t c g by blast
  show ?thesis
    using a b c d g 1 2 3 4 by simp
qed

subsection \<open>The estimate and the size\<close>

text \<open>The digits of a number shown with commas denote that number.\<close>

lemma digit_cases: "d < 10 \<Longrightarrow> d \<in> {0, 1, 2, 3, 4, 5, 6, 7, 8, 9::nat}"
  by auto

lemma digit_val_digit_char: "d < 10 \<Longrightarrow> digit_val (digit_char d) = d"
  using digit_cases [of d] by (auto simp: digit_val_def digit_char_def)

lemma digit_char_not_comma: "d < 10 \<Longrightarrow> digit_char d \<noteq> CHR '',''"
  using digit_cases [of d] by (auto simp: digit_char_def)

lemma digits_value_snoc: "digits_value (xs @ [c]) = 10 * digits_value xs + digit_val c"
  by (simp add: digits_value_def)

lemma digits_value_str_nat: "digits_value (str_nat n) = n"
proof (induction n rule: str_nat.induct)
  case (1 n)
  show ?case
  proof (cases "n < 10")
    case True
    then show ?thesis
      by (subst str_nat.simps) (simp add: digits_value_def digit_val_digit_char)
  next
    case False
    with 1 have "digits_value (str_nat (n div 10)) = n div 10" by simp
    with False show ?thesis
      by (subst str_nat.simps) (simp add: digits_value_snoc digit_val_digit_char)
  qed
qed

lemma str_nat_no_comma: "filter (\<lambda>c. c \<noteq> CHR '','') (str_nat n) = str_nat n"
proof (induction n rule: str_nat.induct)
  case (1 n)
  show ?case
  proof (cases "n < 10")
    case True
    then show ?thesis
      by (subst (1 2) str_nat.simps) (simp add: digit_char_not_comma)
  next
    case False
    with 1 have "filter (\<lambda>c. c \<noteq> CHR '','') (str_nat (n div 10)) = str_nat (n div 10)" by simp
    with False show ?thesis
      by (subst (1 2) str_nat.simps) (simp add: digit_char_not_comma)
  qed
qed

lemma str_nat_step: "\<not> n < 10 \<Longrightarrow> str_nat n = str_nat (n div 10) @ [digit_char (n mod 10)]"
  by (subst str_nat.simps) simp

lemma str_nat_thousands:
  assumes "\<not> n < 1000"
  shows "str_nat n = str_nat (n div 1000) @
           [digit_char (n mod 1000 div 100), digit_char (n mod 100 div 10), digit_char (n mod 10)]"
proof -
  have g1: "\<not> n < 10" and g2: "\<not> n div 10 < 10"
    using assms by simp_all
  have g3: "\<not> n div 10 div 10 < 10"
    using assms by (simp add: div_mult2_eq [symmetric])
  have e: "n div 10 div 10 div 10 = n div 1000"
    by (simp add: div_mult2_eq [symmetric])
  have d1: "n mod 1000 div 100 = n div 10 div 10 mod 10"
    using mod_mult2_eq [of n 100 10] by (simp add: div_mult2_eq [symmetric])
  have d2: "n mod 100 div 10 = n div 10 mod 10"
    using mod_mult2_eq [of n 10 10] by simp
  have "str_nat n = str_nat (n div 10 div 10 div 10) @
          [digit_char (n div 10 div 10 mod 10), digit_char (n div 10 mod 10), digit_char (n mod 10)]"
    unfolding str_nat_step [OF g1] str_nat_step [OF g2] str_nat_step [OF g3]
    by simp
  then show ?thesis unfolding e d1 d2 .
qed

lemma comma_nat_digits: "filter (\<lambda>c. c \<noteq> CHR '','') (comma_nat n) = str_nat n"
proof (induction n rule: comma_nat.induct)
  case (1 n)
  show ?case
  proof (cases "n < 1000")
    case True
    then show ?thesis
      by (subst comma_nat.simps) (simp add: str_nat_no_comma)
  next
    case False
    with 1 have "filter (\<lambda>c. c \<noteq> CHR '','') (comma_nat (n div 1000)) = str_nat (n div 1000)"
      by simp
    with False show ?thesis
      by (subst comma_nat.simps) (simp add: str_nat_thousands digit_char_not_comma)
  qed
qed

lemma py_commas_value:
  "0 \<le> i \<Longrightarrow> int (digits_value (filter (\<lambda>c. c \<noteq> CHR '','') (py_commas i))) = i"
  by (simp add: py_commas_def comma_nat_digits digits_value_str_nat)


text \<open>The summary when its numbers can be shown, and when one of them cannot.\<close>

lemma summary_ok:
  assumes "\<not> exceeds_str_digits width" and "\<not> exceeds_str_digits height"
    and "\<not> exceeds_str_digits (width * height)" and "\<not> exceeds_str_digits (width * height * 2)"
  shows "summary width height shown w =
    (Inr (), w\<lparr>stdout := stdout w @
           [Print (LF # ''Grid Summary:''),
            Print (''   Dimensions: '' @ py_str width @ '' x '' @ py_str height),
            Print (''   Total cells: '' @ py_commas (width * height)),
            Print (''   Estimated file size: ~'' @ py_commas (width * height * 2) @ '' bytes''),
            Print (''   Output file: '' @ shown)]\<rparr>)"
  using assms by (simp add: summary_def Let_def print_def str_int_ok format_commas_ok)

lemma summary_raises:
  assumes "exceeds_str_digits (width * height * 2)"
  shows "fst (summary width height shown w) = Inl ValueError"
  using assms
  by (simp add: summary_def Let_def str_int_def format_commas_def)

lemma summary_positive_ok:
  assumes "0 < width" and "0 < height" and "\<not> exceeds_str_digits (width * height * 2)"
  shows "summary width height shown w =
    (Inr (), w\<lparr>stdout := stdout w @
           [Print (LF # ''Grid Summary:''),
            Print (''   Dimensions: '' @ py_str width @ '' x '' @ py_str height),
            Print (''   Total cells: '' @ py_commas (width * height)),
            Print (''   Estimated file size: ~'' @ py_commas (width * height * 2) @ '' bytes''),
            Print (''   Output file: '' @ shown)]\<rparr>)"
proof -
  have p: "0 < width * height" using assms(1,2) by simp
  have wh: "width \<le> width * height"
    using mult_left_mono [of 1 height width] assms(1,2) by simp
  have hh: "height \<le> width * height"
    using mult_right_mono [of 1 width height] assms(1,2) by simp
  have w: "\<bar>width\<bar> \<le> \<bar>width * height * 2\<bar>" using wh p assms(1) by linarith
  have h: "\<bar>height\<bar> \<le> \<bar>width * height * 2\<bar>" using hh p assms(2) by linarith
  have c: "\<bar>width * height\<bar> \<le> \<bar>width * height * 2\<bar>" using p by linarith
  show ?thesis
    by (intro summary_ok exceeds_str_digits_mono [OF w assms(3)]
        exceeds_str_digits_mono [OF h assms(3)] exceeds_str_digits_mono [OF c assms(3)] assms(3))
qed

text \<open>
  Claim C9. For every width and height above zero for which the file is written, that
  is, when the write does not fail and the rows fit the memory of the interpreter, the
  summary shows, as the estimated size, exactly twice the product of width and height:
  the digits on that line, commas left out, are the digits of that number. The file
  holds \<open>2 * width * height + height\<close> characters, each one byte, which is the size
  reported after writing: the estimate is strictly less than the size of the file.
\<close>

theorem estimate_below_file_size:
  assumes "0 < width" and "0 < height" and "faults w (csv_filename filename) = None"
    and "height * (width + 1) \<le> sys_maxsize"
    and "height * (width + 1) \<le> int (free_cells w)"
  shows "fst (summary width height shown w') = Inr ()
     \<and> stdout (snd (summary width height shown w')) =
           stdout w' @
           [Print (LF # ''Grid Summary:''),
            Print (''   Dimensions: '' @ py_str width @ '' x '' @ py_str height),
            Print (''   Total cells: '' @ py_commas (width * height)),
            Print (''   Estimated file size: ~'' @ py_commas (2 * width * height) @ '' bytes''),
            Print (''   Output file: '' @ shown)]
     \<and> int (digits_value (filter (\<lambda>c. c \<noteq> CHR '','') (py_commas (2 * width * height))))
         = 2 * width * height
     \<and> fst (create_grid_csv width height filename w) = Inr True
     \<and> (\<exists>text.
          files (snd (create_grid_csv width height filename w)) (csv_filename filename) = Some text
        \<and> getsize (csv_filename filename) (snd (create_grid_csv width height filename w))
            = Inr (length text)
        \<and> last (stdout (snd (create_grid_csv width height filename w)))
            = Print (''File size: '' @ str_nat (length text) @ '' bytes'')
        \<and> int (length text) = 2 * width * height + height
        \<and> 2 * width * height < int (length text))"
proof -
  obtain n where n: "nat width = Suc n"
    using assms(1) by (cases "nat width") simp_all
  let ?text = "concat (replicate (nat height) (join '';'' (replicate (nat width) ''0'') @ [CR, LF]))"
  note ok = create_grid_csv_positive_ok [OF assms]
  have res: "fst (create_grid_csv width height filename w) = Inr True"
    by (simp add: ok)
  have written: "files (snd (create_grid_csv width height filename w)) (csv_filename filename)
                  = Some ?text"
    by (simp add: ok)
  have reported: "last (stdout (snd (create_grid_csv width height filename w)))
                   = Print (''File size: '' @ str_nat (length ?text) @ '' bytes'')"
    by (simp add: ok print_def)
  have "length ?text = nat height * (2 * n + 3)"
    by (simp add: length_concat_replicate n length_join_zeros algebra_simps
        del: replicate_Suc join.simps)
  also have "int \<dots> = height * (2 * width + 1)"
  proof -
    have "width = int n + 1" using n assms(1) by linarith
    then show ?thesis using assms(2) by (simp add: algebra_simps)
  qed
  finally have len: "int (length ?text) = 2 * width * height + height"
    by (simp add: algebra_simps)
  have e: "width * height * 2 = 2 * width * height" by simp
  note s = summary_positive_ok [OF assms(1,2) grid_data_sides(4) [OF assms(1,2,4)], of shown w']
  have est1: "fst (summary width height shown w') = Inr ()"
    by (simp add: s)
  have est2: "stdout (snd (summary width height shown w')) =
           stdout w' @
           [Print (LF # ''Grid Summary:''),
            Print (''   Dimensions: '' @ py_str width @ '' x '' @ py_str height),
            Print (''   Total cells: '' @ py_commas (width * height)),
            Print (''   Estimated file size: ~'' @ py_commas (2 * width * height) @ '' bytes''),
            Print (''   Output file: '' @ shown)]"
    by (simp add: s e)
  have size: "getsize (csv_filename filename) (snd (create_grid_csv width height filename w))
                = Inr (length ?text)"
    using written by (simp add: getsize_def)
  have shown: "int (digits_value (filter (\<lambda>c. c \<noteq> CHR '','') (py_commas (2 * width * height))))
                 = 2 * width * height"
    using assms(1,2) by (intro py_commas_value) simp
  show ?thesis using est1 est2 shown res written size reported len assms(2) by simp
qed

theorem estimate_below_file_size_witness:
  "(0::int) < 3 \<and> (0::int) < 2 \<and> faults (initial_world []) (csv_filename ''test'') = None
   \<and> (2::int) * (3 + 1) \<le> sys_maxsize \<and> 2 * (3 + 1) \<le> int (free_cells (initial_world []))
   \<and> fst (summary 3 2 ''test'' (initial_world [])) = Inr ()
   \<and> (\<exists>text. files (snd (create_grid_csv 3 2 ''test'' (initial_world []))) ''test.csv'' = Some text
        \<and> int (length text) = 14 \<and> (12::int) < int (length text))"
proof -
  have name: "csv_filename ''test'' = ''test.csv''"
    by (simp add: csv_filename_def endswith_def)
  have ok: "faults (initial_world []) (csv_filename ''test'') = None"
    by (simp add: initial_world_def)
  have m: "(2::int) * (3 + 1) \<le> sys_maxsize" "2 * (3 + 1) \<le> int (free_cells (initial_world []))"
    by (simp_all add: sys_maxsize_def initial_world_def)
  note t = estimate_below_file_size [of 3 2 "initial_world []" "''test''" "''test''" "initial_world []",
      OF _ _ ok m]
  have s: "fst (summary 3 2 ''test'' (initial_world [])) = Inr ()"
    using t by simp
  have "\<exists>text.
          files (snd (create_grid_csv 3 2 ''test'' (initial_world []))) (csv_filename ''test'') = Some text
        \<and> int (length text) = 2 * 3 * 2 + 2
        \<and> 2 * 3 * 2 < int (length text)"
    using t by simp blast
  then obtain content where
    "files (snd (create_grid_csv 3 2 ''test'' (initial_world []))) (csv_filename ''test'') = Some content"
    "int (length content) = 2 * 3 * 2 + 2" "2 * 3 * 2 < int (length content)"
    by blast
  then have "files (snd (create_grid_csv 3 2 ''test'' (initial_world []))) ''test.csv'' = Some content
        \<and> int (length content) = 14 \<and> (12::int) < int (length content)"
    unfolding name by simp
  then show ?thesis using ok m s by (intro conjI exI [of _ content]) simp_all
qed

section \<open>Properties of the interactive prompt\<close>

subsection \<open>One pass and the loop\<close>

lemma input_Line:
  "stdin w = Line s # rest \<Longrightarrow>
   input p w = (Inr s, w\<lparr>stdout := stdout w @ [Prompt p], stdin := rest\<rparr>)"
  by (simp add: input_def)

lemma input_CtrlC:
  "stdin w = CtrlC # rest \<Longrightarrow>
   input p w = (Inl KeyboardInterrupt, w\<lparr>stdout := stdout w @ [Prompt p], stdin := rest\<rparr>)"
  by (simp add: input_def)

lemma input_cases:
  assumes "input p w = (r, w')"
  shows "stdout w' = stdout w @ [Prompt p] \<and> files w' = files w \<and> faults w' = faults w
     \<and> free_cells w' = free_cells w
     \<and> ((r = Inl EOFError \<and> stdin w = [] \<and> stdin w' = [])
        \<or> (r = Inl KeyboardInterrupt \<and> stdin w = CtrlC # stdin w')
        \<or> (\<exists>s. r = Inr s \<and> stdin w = Line s # stdin w'))"
  using assms by (auto simp: input_def Let_def split: list.splits stdin_event.splits)

lemma try_invalid:
  "stdin w = Line s # rest \<Longrightarrow> py_int s = None \<Longrightarrow>
   dimension_try d w = (Inl ValueError, w\<lparr>stdout := stdout w @ [Prompt (dim_prompt d)], stdin := rest\<rparr>)"
  by (simp add: dimension_try_def input_Line)

lemma try_not_positive:
  "stdin w = Line s # rest \<Longrightarrow> py_int s = Some v \<Longrightarrow> v \<le> 0 \<Longrightarrow>
   dimension_try d w =
     (Inr None, w\<lparr>stdout := stdout w @ [Prompt (dim_prompt d), Print (dim_positive d)], stdin := rest\<rparr>)"
  by (simp add: dimension_try_def input_Line print_def)

lemma try_small:
  "stdin w = Line s # rest \<Longrightarrow> py_int s = Some v \<Longrightarrow> 0 < v \<Longrightarrow> v \<le> 1000 \<Longrightarrow>
   dimension_try d w = (Inr (Some v), w\<lparr>stdout := stdout w @ [Prompt (dim_prompt d)], stdin := rest\<rparr>)"
  by (simp add: dimension_try_def input_Line)

lemma try_large:
  "stdin w = Line s # Line c # rest \<Longrightarrow> py_int s = Some v \<Longrightarrow> 1000 < v \<Longrightarrow>
   dimension_try d w =
     (if py_lower c \<noteq> ''y'' then Inr None else Inr (Some v),
      w\<lparr>stdout := stdout w @ [Prompt (dim_prompt d), Prompt (large_prompt d v)], stdin := rest\<rparr>)"
  by (simp add: dimension_try_def input_Line)

lemma try_break:
  assumes "dimension_try d w = (Inr (Some v), w')"
  shows "0 < v
     \<and> (v \<le> 1000 \<longrightarrow> (\<exists>s. stdin w = Line s # stdin w' \<and> py_int s = Some v
                          \<and> stdout w' = stdout w @ [Prompt (dim_prompt d)]))
     \<and> (1000 < v \<longrightarrow> (\<exists>s c. stdin w = Line s # Line c # stdin w' \<and> py_int s = Some v
                          \<and> py_lower c = ''y''
                          \<and> stdout w' = stdout w @ [Prompt (dim_prompt d), Prompt (large_prompt d v)]))"
  using assms
  by (auto simp: dimension_try_def input_def Let_def print_def
      split: list.splits stdin_event.splits option.splits if_splits)

lemma try_continue:
  assumes "dimension_try d w = (r, w')" and "r = Inr None \<or> r = Inl ValueError"
  shows "\<exists>pre out. pre \<noteq> [] \<and> stdin w = pre @ stdin w' \<and> stdout w' = stdout w @ out"
  using assms
  by (auto simp: dimension_try_def input_def Let_def print_def
      split: list.splits stdin_event.splits option.splits if_splits)

lemma try_files:
  "dimension_try d w = (r, w') \<Longrightarrow>
   files w' = files w \<and> faults w' = faults w \<and> free_cells w' = free_cells w"
  by (auto simp: dimension_try_def input_def Let_def print_def
      split: list.splits stdin_event.splits option.splits if_splits)

lemma read_accept:
  "dimension_try d w = (Inr (Some v), w') \<Longrightarrow> read_dimension d w = (Inr v, w')"
  by (subst read_dimension.simps) simp

lemma read_continue:
  "dimension_try d w = (Inr None, w') \<Longrightarrow> read_dimension d w = read_dimension d w'"
  by (subst read_dimension.simps) simp

lemma read_invalid:
  "dimension_try d w = (Inl ValueError, w') \<Longrightarrow>
   read_dimension d w = read_dimension d (print ''Please enter a valid number'' w')"
  by (subst read_dimension.simps) simp

lemma read_raise:
  "dimension_try d w = (Inl e, w') \<Longrightarrow> e \<noteq> ValueError \<Longrightarrow> read_dimension d w = (Inl e, w')"
  by (subst read_dimension.simps) simp

lemma read_dimension_files:
  "read_dimension d w = (r, w') \<Longrightarrow>
   files w' = files w \<and> faults w' = faults w \<and> free_cells w' = free_cells w"
proof (induction d w arbitrary: r w' rule: read_dimension.induct)
  case (1 d w0)
  obtain x w1 where t: "dimension_try d w0 = (x, w1)" by (cases "dimension_try d w0")
  note f = try_files [OF t]
  show ?case
  proof (cases x)
    case (Inl e)
    show ?thesis
    proof (cases "e = ValueError")
      case True
      with Inl t "1.prems" have "read_dimension d (print ''Please enter a valid number'' w1) = (r, w')"
        by (simp add: read_invalid)
      from "1.IH"(1) [OF t [symmetric] Inl True this] f show ?thesis
        by (simp add: print_def)
    next
      case False
      with Inl t "1.prems" f show ?thesis by (simp add: read_raise)
    qed
  next
    case (Inr y)
    show ?thesis
    proof (cases y)
      case None
      with Inr t "1.prems" have "read_dimension d w1 = (r, w')" by (simp add: read_continue)
      from "1.IH"(2) [OF t [symmetric] Inr None this] f show ?thesis by simp
    next
      case (Some v)
      with Inr t "1.prems" f show ?thesis by (simp add: read_accept)
    qed
  qed
qed

lemma read_dimension_accepted:
  "read_dimension d w = (Inr v, w') \<Longrightarrow>
   0 < v
   \<and> (v \<le> 1000 \<longrightarrow> (\<exists>pre s out. stdin w = pre @ Line s # stdin w' \<and> py_int s = Some v
                          \<and> stdout w' = stdout w @ out @ [Prompt (dim_prompt d)]))
   \<and> (1000 < v \<longrightarrow> (\<exists>pre s c out. stdin w = pre @ Line s # Line c # stdin w' \<and> py_int s = Some v
                          \<and> py_lower c = ''y''
                          \<and> stdout w' = stdout w @ out @ [Prompt (dim_prompt d), Prompt (large_prompt d v)]))"
proof (induction d w arbitrary: v w' rule: read_dimension.induct)
  case (1 d w0)
  let ?P = "\<lambda>w. 0 < v
   \<and> (v \<le> 1000 \<longrightarrow> (\<exists>pre s out. stdin w = pre @ Line s # stdin w' \<and> py_int s = Some v
                          \<and> stdout w' = stdout w @ out @ [Prompt (dim_prompt d)]))
   \<and> (1000 < v \<longrightarrow> (\<exists>pre s c out. stdin w = pre @ Line s # Line c # stdin w' \<and> py_int s = Some v
                          \<and> py_lower c = ''y''
                          \<and> stdout w' = stdout w @ out @ [Prompt (dim_prompt d), Prompt (large_prompt d v)]))"
  obtain x w1 where t: "dimension_try d w0 = (x, w1)" by (cases "dimension_try d w0")
  have step: "?P w0" if later: "?P w2" and pre: "stdin w0 = pre @ stdin w2"
    and out: "stdout w2 = stdout w0 @ out" for w2 pre out
  proof (intro conjI impI)
    show "0 < v" using later by simp
  next
    assume "v \<le> 1000"
    with later obtain pre' s out' where
      "stdin w2 = pre' @ Line s # stdin w'" "py_int s = Some v"
      "stdout w' = stdout w2 @ out' @ [Prompt (dim_prompt d)]" by blast
    then have "stdin w0 = (pre @ pre') @ Line s # stdin w'" "py_int s = Some v"
      "stdout w' = stdout w0 @ (out @ out') @ [Prompt (dim_prompt d)]"
      using pre out by simp_all
    then show "\<exists>pre s out. stdin w0 = pre @ Line s # stdin w' \<and> py_int s = Some v
                 \<and> stdout w' = stdout w0 @ out @ [Prompt (dim_prompt d)]" by blast
  next
    assume "1000 < v"
    with later obtain pre' s c out' where
      "stdin w2 = pre' @ Line s # Line c # stdin w'" "py_int s = Some v" "py_lower c = ''y''"
      "stdout w' = stdout w2 @ out' @ [Prompt (dim_prompt d), Prompt (large_prompt d v)]" by blast
    then have "stdin w0 = (pre @ pre') @ Line s # Line c # stdin w'" "py_int s = Some v"
      "py_lower c = ''y''"
      "stdout w' = stdout w0 @ (out @ out') @ [Prompt (dim_prompt d), Prompt (large_prompt d v)]"
      using pre out by simp_all
    then show "\<exists>pre s c out. stdin w0 = pre @ Line s # Line c # stdin w' \<and> py_int s = Some v
                 \<and> py_lower c = ''y''
                 \<and> stdout w' = stdout w0 @ out @ [Prompt (dim_prompt d), Prompt (large_prompt d v)]"
      by blast
  qed
  show ?case
  proof (cases x)
    case (Inl e)
    show ?thesis
    proof (cases "e = ValueError")
      case True
      let ?w2 = "print ''Please enter a valid number'' w1"
      from True Inl t "1.prems" have r: "read_dimension d ?w2 = (Inr v, w')"
        by (simp add: read_invalid)
      have later: "?P ?w2" by (rule "1.IH"(1) [OF t [symmetric] Inl True r])
      from try_continue [OF t] Inl True obtain pre out where
        "stdin w0 = pre @ stdin w1" "stdout w1 = stdout w0 @ out" by blast
      then have "stdin w0 = pre @ stdin ?w2"
        "stdout ?w2 = stdout w0 @ (out @ [Print ''Please enter a valid number''])"
        by (simp_all add: print_def)
      with later show ?thesis by (rule step)
    next
      case False
      with Inl t "1.prems" show ?thesis by (simp add: read_raise)
    qed
  next
    case (Inr y)
    show ?thesis
    proof (cases y)
      case None
      with Inr t "1.prems" have r: "read_dimension d w1 = (Inr v, w')" by (simp add: read_continue)
      have later: "?P w1" by (rule "1.IH"(2) [OF t [symmetric] Inr None r])
      from try_continue [OF t] Inr None obtain pre out where
        "stdin w0 = pre @ stdin w1" "stdout w1 = stdout w0 @ out" by blast
      with later show ?thesis by (rule step)
    next
      case (Some u)
      with Inr t "1.prems" have eq: "u = v" "w1 = w'" by (simp_all add: read_accept)
      from try_break [of d w0 v w'] t Inr Some eq have b: "0 < v"
        "v \<le> 1000 \<longrightarrow> (\<exists>s. stdin w0 = Line s # stdin w' \<and> py_int s = Some v
                          \<and> stdout w' = stdout w0 @ [Prompt (dim_prompt d)])"
        "1000 < v \<longrightarrow> (\<exists>s c. stdin w0 = Line s # Line c # stdin w' \<and> py_int s = Some v
                          \<and> py_lower c = ''y''
                          \<and> stdout w' = stdout w0 @ [Prompt (dim_prompt d), Prompt (large_prompt d v)])"
        by simp_all
      show ?thesis
      proof (intro conjI impI)
        show "0 < v" by (rule b)
      next
        assume "v \<le> 1000"
        with b(2) obtain s where "stdin w0 = [] @ Line s # stdin w'" "py_int s = Some v"
          "stdout w' = stdout w0 @ [] @ [Prompt (dim_prompt d)]" by auto
        then show "\<exists>pre s out. stdin w0 = pre @ Line s # stdin w' \<and> py_int s = Some v
                 \<and> stdout w' = stdout w0 @ out @ [Prompt (dim_prompt d)]" by blast
      next
        assume "1000 < v"
        with b(3) obtain s c where "stdin w0 = [] @ Line s # Line c # stdin w'" "py_int s = Some v"
          "py_lower c = ''y''"
          "stdout w' = stdout w0 @ [] @ [Prompt (dim_prompt d), Prompt (large_prompt d v)]" by auto
        then show "\<exists>pre s c out. stdin w0 = pre @ Line s # Line c # stdin w' \<and> py_int s = Some v
                 \<and> py_lower c = ''y''
                 \<and> stdout w' = stdout w0 @ out @ [Prompt (dim_prompt d), Prompt (large_prompt d v)]"
          by blast
      qed
    qed
  qed
qed

lemma read_dimension_skips_invalid:
  "list_all (\<lambda>s. py_int s = None) bad \<Longrightarrow> stdin w = map Line bad @ rest \<Longrightarrow>
   read_dimension d w =
   read_dimension d
     (w\<lparr>stdout := stdout w @ concat (map (\<lambda>s. [Prompt (dim_prompt d), Print ''Please enter a valid number'']) bad),
        stdin := rest\<rparr>)"
proof (induction bad arbitrary: w)
  case Nil
  then have "w\<lparr>stdout := stdout w, stdin := rest\<rparr> = w" by simp
  then show ?case by simp
next
  case (Cons s bad)
  let ?w1 = "w\<lparr>stdout := stdout w @ [Prompt (dim_prompt d)], stdin := map Line bad @ rest\<rparr>"
  let ?w2 = "print ''Please enter a valid number'' ?w1"
  from Cons.prems have "dimension_try d w = (Inl ValueError, ?w1)"
    by (simp add: try_invalid)
  then have "read_dimension d w = read_dimension d ?w2" by (rule read_invalid)
  also have "\<dots> = read_dimension d
     (?w2\<lparr>stdout := stdout ?w2 @ concat (map (\<lambda>s. [Prompt (dim_prompt d), Print ''Please enter a valid number'']) bad),
        stdin := rest\<rparr>)"
    using Cons.prems by (intro Cons.IH) (simp_all add: print_def)
  finally show ?case by (simp add: print_def)
qed

lemma read_dimension_no_ValueError: "fst (read_dimension d w) \<noteq> Inl ValueError"
proof (induction d w rule: read_dimension.induct)
  case (1 d w0)
  obtain x w1 where t: "dimension_try d w0 = (x, w1)" by (cases "dimension_try d w0")
  show ?case
  proof (cases x)
    case (Inl e)
    show ?thesis
    proof (cases "e = ValueError")
      case True
      from "1.IH"(1) [OF t [symmetric] Inl True] Inl True t show ?thesis
        by (simp add: read_invalid)
    next
      case False
      with Inl t show ?thesis by (simp add: read_raise)
    qed
  next
    case (Inr y)
    show ?thesis
    proof (cases y)
      case None
      from "1.IH"(2) [OF t [symmetric] Inr None] Inr None t show ?thesis
        by (simp add: read_continue)
    next
      case (Some v)
      with Inr t show ?thesis by (simp add: read_accept)
    qed
  qed
qed

lemma main_failed_returns: "fst (main_failed e w) = Inr ()"
  by (cases e) (simp_all add: main_failed_def)

lemma main_returns: "fst (main w) = Inr ()"
  by (simp add: main_def main_failed_returns split: prod.splits sum.splits option.splits)

subsection \<open>The end of the dialogue and the driver\<close>

lemma stdin_print [simp]: "stdin (print s w) = stdin w"
  by (simp add: print_def)

lemma stdin_summary [simp]: "stdin (snd (summary a b f w)) = stdin w"
  by (simp add: summary_def Let_def split: sum.splits)

lemma files_summary [simp]: "files (snd (summary a b f w)) = files w"
  by (simp add: summary_def Let_def split: sum.splits)

lemma faults_print [simp]: "faults (print s w) = faults w"
  by (simp add: print_def)

lemma free_cells_print [simp]: "free_cells (print s w) = free_cells w"
  by (simp add: print_def)

lemma faults_summary [simp]: "faults (snd (summary a b f w)) = faults w"
  by (simp add: summary_def Let_def split: sum.splits)

lemma free_cells_summary [simp]: "free_cells (snd (summary a b f w)) = free_cells w"
  by (simp add: summary_def Let_def split: sum.splits)

lemma faults_banner [simp]: "faults (banner w) = faults w"
  by (simp add: banner_def)

lemma free_cells_banner [simp]: "free_cells (banner w) = free_cells w"
  by (simp add: banner_def)

lemma files_banner [simp]: "files (banner w) = files w"
  by (simp add: banner_def)

lemma files_input: "files (snd (input p w)) = files w"
  by (simp add: input_def Let_def split: list.splits stdin_event.splits)

text \<open>The end of \<^verbatim>\<open>get_user_input\<close>, once both dimensions are read.\<close>

lemma get_user_input_confirm:
  assumes "read_dimension Width (banner w) = (Inr width, w1)"
    and "read_dimension Height w1 = (Inr height, w2)"
    and "\<not> exceeds_str_digits (width * height * 2)"
    and "stdin w2 = Line f # Line c # rest"
  shows "fst (get_user_input w) =
           (if py_lower c \<noteq> ''y'' then Inr None
            else Inr (Some (width, height,
                   if py_strip f = [] then default_filename width height else py_strip f)))"
    and "stdin (snd (get_user_input w)) = rest"
proof -
  have pos: "0 < width" "0 < height"
    using read_dimension_accepted [OF assms(1)] read_dimension_accepted [OF assms(2)] by simp_all
  note s = summary_positive_ok [OF pos assms(3)]
  show "fst (get_user_input w) =
           (if py_lower c \<noteq> ''y'' then Inr None
            else Inr (Some (width, height,
                   if py_strip f = [] then default_filename width height else py_strip f)))"
    and "stdin (snd (get_user_input w)) = rest"
    using assms(1,2,4)
    by (simp_all add: get_user_input_def get_user_input_body_def Let_def input_def print_def s)
qed

lemma get_user_input_interrupt:
  assumes "read_dimension Width (banner w) = (Inr width, w1)"
    and "read_dimension Height w1 = (Inr height, w2)"
    and "\<not> exceeds_str_digits (width * height * 2)"
    and "stdin w2 = Line f # CtrlC # rest"
  shows "fst (get_user_input w) = Inr None"
proof -
  have pos: "0 < width" "0 < height"
    using read_dimension_accepted [OF assms(1)] read_dimension_accepted [OF assms(2)] by simp_all
  note s = summary_positive_ok [OF pos assms(3)]
  show ?thesis
    using assms(1,2,4)
    by (simp add: get_user_input_def get_user_input_body_def Let_def input_def print_def s)
qed

text \<open>When a number of the summary cannot be shown, the final prompt is not reached.\<close>

lemma get_user_input_summary_raises:
  assumes "read_dimension Width (banner w) = (Inr width, w1)"
    and "read_dimension Height w1 = (Inr height, w2)"
    and "exceeds_str_digits (width * height * 2)"
    and "stdin w2 = Line f # rest"
  shows "fst (get_user_input w) = Inl ValueError"
    and "stdin (snd (get_user_input w)) = rest"
proof -
  let ?name = "if py_strip f = [] then default_filename width height else py_strip f"
  let ?w4 = "w2\<lparr>stdout := stdout w2 @ [Print (LF # ''Suggested filename: '' @ default_filename width height),
                Prompt ''Enter filename (or press Enter for default): ''], stdin := rest\<rparr>"
  obtain r w5 where s: "summary width height ?name ?w4 = (r, w5)"
    by (cases "summary width height ?name ?w4")
  have r: "r = Inl ValueError" using summary_raises [OF assms(3), of ?name ?w4] s by simp
  have "stdin (snd (summary width height ?name ?w4)) = stdin ?w4" by (rule stdin_summary)
  then have i: "stdin w5 = rest" unfolding s by simp
  show "fst (get_user_input w) = Inl ValueError" and "stdin (snd (get_user_input w)) = rest"
    using assms(1,2,4) s r i
    by (simp_all add: get_user_input_def get_user_input_body_def Let_def input_def print_def)
qed

lemma get_user_input_body_keeps:
  "files (snd (get_user_input_body w)) = files w
   \<and> faults (snd (get_user_input_body w)) = faults w
   \<and> free_cells (snd (get_user_input_body w)) = free_cells w"
proof -
  obtain r1 w1 where a: "read_dimension Width (banner w) = (r1, w1)"
    by (cases "read_dimension Width (banner w)")
  obtain r2 w2 where b: "read_dimension Height w1 = (r2, w2)"
    by (cases "read_dimension Height w1")
  have f1: "files w1 = files w" "faults w1 = faults w" "free_cells w1 = free_cells w"
    using read_dimension_files [OF a] by simp_all
  have f2: "files w2 = files w" "faults w2 = faults w" "free_cells w2 = free_cells w"
    using read_dimension_files [OF b] f1 by simp_all
  have keep: "files (snd (input p v)) = files v \<and> faults (snd (input p v)) = faults v
                \<and> free_cells (snd (input p v)) = free_cells v" for p v
    using input_cases [of p v "fst (input p v)" "snd (input p v)"] by simp
  show ?thesis
  proof (cases r1)
    case Inl
    with a f1 show ?thesis by (simp add: get_user_input_body_def)
  next
    case width: (Inr width)
    show ?thesis
    proof (cases r2)
      case Inl
      with a b width f2 show ?thesis by (simp add: get_user_input_body_def)
    next
      case height: (Inr height)
      let ?w3 = "print (LF # ''Suggested filename: '' @ default_filename width height) w2"
      obtain r4 w4 where c: "input ''Enter filename (or press Enter for default): '' ?w3 = (r4, w4)"
        by (cases "input ''Enter filename (or press Enter for default): '' ?w3")
      have f4: "files w4 = files w" "faults w4 = faults w" "free_cells w4 = free_cells w"
        using keep [of "''Enter filename (or press Enter for default): ''" ?w3] c f2 by simp_all
      show ?thesis
      proof (cases r4)
        case Inl
        with a b c width height f4 show ?thesis by (simp add: get_user_input_body_def Let_def)
      next
        case line: (Inr line)
        let ?name = "if py_strip line = [] then default_filename width height else py_strip line"
        obtain r5 w5 where d: "summary width height ?name w4 = (r5, w5)"
          by (cases "summary width height ?name w4")
        have "files (snd (summary width height ?name w4)) = files w4"
          "faults (snd (summary width height ?name w4)) = faults w4"
          "free_cells (snd (summary width height ?name w4)) = free_cells w4"
          by simp_all
        then have f5: "files w5 = files w" "faults w5 = faults w" "free_cells w5 = free_cells w"
          unfolding d using f4 by simp_all
        show ?thesis
        proof (cases r5)
          case Inl
          with a b c d width height line f5 show ?thesis
            by (simp add: get_user_input_body_def Let_def)
        next
          case Inr
          obtain r6 w6 where e: "input (LF # ''Create this grid file? (y/n): '') w5 = (r6, w6)"
            by (cases "input (LF # ''Create this grid file? (y/n): '') w5")
          have f6: "files w6 = files w" "faults w6 = faults w" "free_cells w6 = free_cells w"
            using keep [of "LF # ''Create this grid file? (y/n): ''" w5] e f5 by simp_all
          from a b c d e width height line Inr f6 show ?thesis
            by (cases r6) (simp_all add: get_user_input_body_def Let_def)
        qed
      qed
    qed
  qed
qed

lemma get_user_input_keeps:
  "files (snd (get_user_input w)) = files w
   \<and> faults (snd (get_user_input w)) = faults w
   \<and> free_cells (snd (get_user_input w)) = free_cells w"
  using get_user_input_body_keeps [of w]
  by (auto simp: get_user_input_def split: prod.splits sum.splits exn.splits)

lemma get_user_input_files: "files (snd (get_user_input w)) = files w"
  by (simp add: get_user_input_keeps)

lemma main_cancelled:
  "fst (get_user_input w) = Inr None \<Longrightarrow>
   main w = (Inr (), print ''Goodbye!'' (snd (get_user_input w)))"
  by (cases "get_user_input w") (simp add: main_def)

lemma main_create:
  "fst (get_user_input w) = Inr (Some (a, b, f)) \<Longrightarrow>
   main w = (case create_grid_csv a b f (snd (get_user_input w)) of
               (Inl e, w2) \<Rightarrow> main_failed e w2
             | (Inr ok, w2) \<Rightarrow> (Inr (), w2))"
  by (cases "get_user_input w") (simp add: main_def)

lemma lower_char_y: "lower_char c = CHR ''y'' \<longleftrightarrow> c = CHR ''y'' \<or> c = CHR ''Y''"
proof -
  have inj: "\<And>a b::char. a = b \<longleftrightarrow> (of_char a :: nat) = of_char b" by simp
  have lt: "(of_char c :: nat) < 256" by simp
  show ?thesis
    unfolding lower_char_def Let_def inj [of _ "CHR ''y''"] inj [of _ "CHR ''Y''"]
    using lt by (auto simp: take_bit_eq_mod)
qed

lemma py_lower_y: "py_lower c = ''y'' \<longleftrightarrow> c = ''y'' \<or> c = ''Y''"
proof (cases c)
  case Nil
  then show ?thesis by (simp add: py_lower_def)
next
  case (Cons a cs)
  then show ?thesis by (cases cs) (auto simp: py_lower_def lower_char_y)
qed

lemma py_strip_verbatim:
  assumes "f \<noteq> []" "\<not> py_isspace (hd f)" "\<not> py_isspace (last f)"
  shows "py_strip f = f"
proof -
  have a: "dropWhile py_isspace f = f" using assms(1,2) by (cases f) simp_all
  have "rev f \<noteq> []" "\<not> py_isspace (hd (rev f))"
    using assms(1,3) by (simp_all add: hd_rev)
  then have "dropWhile py_isspace (rev f) = rev f" by (cases "rev f") simp_all
  then show ?thesis by (simp add: py_strip_def a)
qed

lemma py_strip_blank: "py_strip f = [] \<longleftrightarrow> list_all py_isspace f"
proof (cases "dropWhile py_isspace f = []")
  case True
  have "py_strip f = []" unfolding py_strip_def True by simp
  moreover have "list_all py_isspace f" using True by (simp add: list_all_iff)
  ultimately show ?thesis by simp
next
  case False
  then have "\<not> py_isspace (hd (dropWhile py_isspace f))" by (rule hd_dropWhile)
  moreover have "hd (dropWhile py_isspace f) \<in> set (dropWhile py_isspace f)"
    using False by simp
  ultimately have "py_strip f \<noteq> []" by (auto simp: py_strip_def)
  moreover have "\<not> list_all py_isspace f" using False by (simp add: list_all_iff)
  ultimately show ?thesis by simp
qed

lemma get_user_input_faults: "faults (snd (get_user_input w)) = faults w"
  by (simp add: get_user_input_keeps)

lemma get_user_input_free_cells: "free_cells (snd (get_user_input w)) = free_cells w"
  by (simp add: get_user_input_keeps)

lemma read_small:
  assumes "stdin w = Line s # rest" "py_int s = Some v" "0 < v" "v \<le> 1000"
  shows "read_dimension d w = (Inr v, w\<lparr>stdout := stdout w @ [Prompt (dim_prompt d)], stdin := rest\<rparr>)"
  using assms by (intro read_accept try_small)

lemma read_large:
  assumes "stdin w = Line s # Line c # rest" "py_int s = Some v" "1000 < v"
  shows "read_dimension d w =
    (if py_lower c = ''y''
     then (Inr v, w\<lparr>stdout := stdout w @ [Prompt (dim_prompt d), Prompt (large_prompt d v)], stdin := rest\<rparr>)
     else read_dimension d
            (w\<lparr>stdout := stdout w @ [Prompt (dim_prompt d), Prompt (large_prompt d v)], stdin := rest\<rparr>))"
proof (cases "py_lower c = ''y''")
  case True
  with try_large [OF assms, of d] show ?thesis by (simp add: read_accept)
next
  case False
  with try_large [OF assms, of d] show ?thesis by (simp add: read_continue)
qed

text \<open>Dimensions up to 1000 never bring the summary to its limit.\<close>

lemma small_grid_converts:
  assumes "0 < width" "width \<le> 1000" "0 < height" "height \<le> 1000"
  shows "\<not> exceeds_str_digits (width * height * 2)"
proof -
  have b: "width * height \<le> 1000 * 1000"
    using assms by (intro mult_mono) simp_all
  have p: "0 < width * height" using assms(1,3) by simp
  have "\<bar>width * height * 2\<bar> \<le> 2 * sys_maxsize"
    unfolding sys_maxsize_def using b p by linarith
  then show ?thesis by (rule index_sized_converts)
qed

text \<open>A session in which both dimensions are accepted at once.\<close>

lemma plain_session:
  assumes "stdin w = Line a # Line b # Line f # Line c # rest"
    and "py_int a = Some width" "0 < width" "width \<le> 1000"
    and "py_int b = Some height" "0 < height" "height \<le> 1000"
  shows "fst (get_user_input w) =
           (if py_lower c \<noteq> ''y'' then Inr None
            else Inr (Some (width, height,
                   if py_strip f = [] then default_filename width height else py_strip f)))"
proof -
  let ?w1 = "(banner w)\<lparr>stdout := stdout (banner w) @ [Prompt (dim_prompt Width)],
                        stdin := Line b # Line f # Line c # rest\<rparr>"
  let ?w2 = "?w1\<lparr>stdout := stdout ?w1 @ [Prompt (dim_prompt Height)], stdin := Line f # Line c # rest\<rparr>"
  have "stdin (banner w) = Line a # Line b # Line f # Line c # rest"
    using assms(1) by (simp add: banner_def)
  then have 1: "read_dimension Width (banner w) = (Inr width, ?w1)"
    using assms(2-4) by (rule read_small)
  have "stdin ?w1 = Line b # Line f # Line c # rest" by simp
  then have 2: "read_dimension Height ?w1 = (Inr height, ?w2)"
    using assms(5-7) by (rule read_small)
  have 3: "stdin ?w2 = Line f # Line c # rest" by simp
  have 4: "\<not> exceeds_str_digits (width * height * 2)"
    using assms(3,4,6,7) by (rule small_grid_converts)
  show ?thesis by (rule get_user_input_confirm(1) [OF 1 2 4 3])
qed

lemma py_int_examples:
  "py_int ''3'' = Some 3" "py_int ''2'' = Some 2" "py_int ''500'' = Some 500"
  "py_int ''2000'' = Some 2000" "py_int ''abc'' = None" "py_int '''' = None"
  "py_int ''0'' = Some 0" "py_int ''1.5'' = None"
  by code_simp+

lemma py_strip_examples:
  "py_strip ''test'' = ''test''" "py_strip '' a'' = ''a''" "py_strip '''' = ''''"
  by code_simp+

lemma default_filename_5x5: "default_filename 5 5 = ''grid_5x5.csv''"
  by code_simp

subsection \<open>Large values and invalid lines\<close>

text \<open>
  Claim C6. A dimension loop returns a value above 1000 only when the line read right
  after that value, at the prompt \<^verbatim>\<open>Large grid (...). Continue? (y/n):\<close>, lowercases to \<open>y\<close>.
  A parsed value above 1000 followed by any other line is not accepted and does not end
  the loop: the loop runs on from the rest of the input, asking for the dimension again.
  A value from 1 to 1000 is returned at once, and the line after it is not read.
\<close>

theorem large_dimension_needs_confirmation:
  "(read_dimension d w = (Inr v, w') \<and> 1000 < v \<longrightarrow>
      (\<exists>pre s c out. stdin w = pre @ Line s # Line c # stdin w' \<and> py_int s = Some v
          \<and> py_lower c = ''y''
          \<and> stdout w' = stdout w @ out @ [Prompt (dim_prompt d), Prompt (large_prompt d v)]))
   \<and> (stdin w = Line s # Line c # rest \<and> py_int s = Some u \<and> 1000 < u \<and> py_lower c \<noteq> ''y'' \<longrightarrow>
        read_dimension d w =
        read_dimension d
          (w\<lparr>stdout := stdout w @ [Prompt (dim_prompt d), Prompt (large_prompt d u)], stdin := rest\<rparr>))
   \<and> (stdin w = Line s # Line c # rest \<and> py_int s = Some u \<and> 1000 < u \<and> py_lower c = ''y'' \<longrightarrow>
        read_dimension d w =
        (Inr u, w\<lparr>stdout := stdout w @ [Prompt (dim_prompt d), Prompt (large_prompt d u)], stdin := rest\<rparr>))
   \<and> (stdin w = Line s # rest \<and> py_int s = Some u \<and> 1 \<le> u \<and> u \<le> 1000 \<longrightarrow>
        read_dimension d w =
        (Inr u, w\<lparr>stdout := stdout w @ [Prompt (dim_prompt d)], stdin := rest\<rparr>))"
proof (intro conjI impI)
  assume "read_dimension d w = (Inr v, w') \<and> 1000 < v"
  then show "\<exists>pre s c out. stdin w = pre @ Line s # Line c # stdin w' \<and> py_int s = Some v
          \<and> py_lower c = ''y''
          \<and> stdout w' = stdout w @ out @ [Prompt (dim_prompt d), Prompt (large_prompt d v)]"
    using read_dimension_accepted [of d w v w'] by blast
next
  assume "stdin w = Line s # Line c # rest \<and> py_int s = Some u \<and> 1000 < u \<and> py_lower c \<noteq> ''y''"
  then show "read_dimension d w =
        read_dimension d
          (w\<lparr>stdout := stdout w @ [Prompt (dim_prompt d), Prompt (large_prompt d u)], stdin := rest\<rparr>)"
    using read_large [of w s c rest u d] by simp
next
  assume "stdin w = Line s # Line c # rest \<and> py_int s = Some u \<and> 1000 < u \<and> py_lower c = ''y''"
  then show "read_dimension d w =
        (Inr u, w\<lparr>stdout := stdout w @ [Prompt (dim_prompt d), Prompt (large_prompt d u)], stdin := rest\<rparr>)"
    using read_large [of w s c rest u d] by simp
next
  assume "stdin w = Line s # rest \<and> py_int s = Some u \<and> 1 \<le> u \<and> u \<le> 1000"
  then show "read_dimension d w =
        (Inr u, w\<lparr>stdout := stdout w @ [Prompt (dim_prompt d)], stdin := rest\<rparr>)"
    using read_small [of w s rest u d] by simp
qed

theorem large_dimension_needs_confirmation_witness:
  "py_int ''2000'' = Some 2000 \<and> (1000::int) < 2000 \<and> py_lower ''n'' \<noteq> ''y''
   \<and> py_lower ''Y'' = ''y'' \<and> py_int ''500'' = Some 500 \<and> (1::int) \<le> 500 \<and> (500::int) \<le> 1000
   \<and> read_dimension Width (initial_world [Line ''2000'', Line ''n'', Line ''500'']) =
       (Inr 500, (initial_world [Line ''2000'', Line ''n'', Line ''500''])
                   \<lparr>stdout := [Prompt (dim_prompt Width), Prompt (large_prompt Width 2000),
                               Prompt (dim_prompt Width)],
                     stdin := []\<rparr>)
   \<and> read_dimension Width (initial_world [Line ''2000'', Line ''Y'', Line ''7'']) =
       (Inr 2000, (initial_world [Line ''2000'', Line ''Y'', Line ''7''])
                   \<lparr>stdout := [Prompt (dim_prompt Width), Prompt (large_prompt Width 2000)],
                     stdin := [Line ''7'']\<rparr>)
   \<and> (\<exists>pre s c out. [Line ''2000'', Line ''Y'', Line ''7''] = pre @ Line s # Line c # [Line ''7'']
          \<and> py_int s = Some 2000 \<and> py_lower c = ''y'')"
proof -
  let ?a = "initial_world [Line ''2000'', Line ''n'', Line ''500'']"
  let ?b = "?a\<lparr>stdout := stdout ?a @ [Prompt (dim_prompt Width), Prompt (large_prompt Width 2000)],
               stdin := [Line ''500'']\<rparr>"
  let ?c = "initial_world [Line ''2000'', Line ''Y'', Line ''7'']"
  let ?c' = "?c\<lparr>stdout := stdout ?c @ [Prompt (dim_prompt Width), Prompt (large_prompt Width 2000)],
               stdin := [Line ''7'']\<rparr>"
  have n: "py_lower ''n'' \<noteq> ''y''" and y: "py_lower ''Y'' = ''y''"
    by code_simp+
  have sa: "stdin ?a = Line ''2000'' # Line ''n'' # [Line ''500'']"
    and sb: "stdin ?b = Line ''500'' # []"
    and sc: "stdin ?c = Line ''2000'' # Line ''Y'' # [Line ''7'']"
    by (simp_all add: initial_world_def)
  have 1: "read_dimension Width ?a = read_dimension Width ?b"
    using large_dimension_needs_confirmation [of Width ?a _ _ "''2000''" "''n''" "[Line ''500'']" 2000]
      sa n py_int_examples(4) by simp
  have 2: "read_dimension Width ?b =
             (Inr 500, ?b\<lparr>stdout := stdout ?b @ [Prompt (dim_prompt Width)], stdin := []\<rparr>)"
    using large_dimension_needs_confirmation [of Width ?b _ _ "''500''" _ "[]" 500]
      sb py_int_examples(3) by simp
  have 3: "read_dimension Width ?c = (Inr 2000, ?c')"
    using large_dimension_needs_confirmation [of Width ?c _ _ "''2000''" "''Y''" "[Line ''7'']" 2000]
      sc y py_int_examples(4) by simp
  have 4: "\<exists>pre s c out. stdin ?c = pre @ Line s # Line c # stdin ?c' \<and> py_int s = Some 2000
          \<and> py_lower c = ''y''
          \<and> stdout ?c' = stdout ?c @ out @ [Prompt (dim_prompt Width), Prompt (large_prompt Width 2000)]"
    using large_dimension_needs_confirmation [of Width ?c 2000 ?c'] 3 by simp
  have 5: "\<exists>pre s c out. [Line ''2000'', Line ''Y'', Line ''7''] = pre @ Line s # Line c # [Line ''7'']
          \<and> py_int s = Some 2000 \<and> py_lower c = ''y''"
    using 4 by (simp add: initial_world_def)
  have 6: "read_dimension Width ?a =
       (Inr 500, ?a\<lparr>stdout := [Prompt (dim_prompt Width), Prompt (large_prompt Width 2000),
                               Prompt (dim_prompt Width)], stdin := []\<rparr>)"
    unfolding 1 2 by (simp add: initial_world_def)
  have 7: "read_dimension Width ?c =
       (Inr 2000, ?c\<lparr>stdout := [Prompt (dim_prompt Width), Prompt (large_prompt Width 2000)],
                     stdin := [Line ''7'']\<rparr>)"
    unfolding 3 by (simp add: initial_world_def)
  show ?thesis
    using n y py_int_examples(3,4) 5 6 7 by simp
qed

text \<open>
  Claim C7. Lines that \<^verbatim>\<open>int\<close> rejects never leave the prompt: each is answered by
  \<^verbatim>\<open>Please enter a valid number\<close> and the same prompt again, and the loop goes on with
  the input after them. A value is returned only if it is positive and was parsed from
  a line of the input. The \<^verbatim>\<open>ValueError\<close> of \<^verbatim>\<open>int\<close> never leaves the loop, and
  \<^verbatim>\<open>main\<close> always returns normally.
\<close>

theorem invalid_number_reprompts:
  "(list_all (\<lambda>s. py_int s = None) bad \<and> stdin w = map Line bad @ rest \<longrightarrow>
      read_dimension d w =
      read_dimension d
        (w\<lparr>stdout := stdout w @ concat (map (\<lambda>s. [Prompt (dim_prompt d),
                                                  Print ''Please enter a valid number'']) bad),
           stdin := rest\<rparr>))
   \<and> (read_dimension d w = (Inr v, w') \<longrightarrow>
        0 < v \<and> (\<exists>pre s post. stdin w = pre @ Line s # post \<and> py_int s = Some v))
   \<and> fst (read_dimension d w) \<noteq> Inl ValueError
   \<and> fst (main w) = Inr ()"
proof (intro conjI impI)
  assume "list_all (\<lambda>s. py_int s = None) bad \<and> stdin w = map Line bad @ rest"
  then show "read_dimension d w =
      read_dimension d
        (w\<lparr>stdout := stdout w @ concat (map (\<lambda>s. [Prompt (dim_prompt d),
                                                  Print ''Please enter a valid number'']) bad),
           stdin := rest\<rparr>)"
    using read_dimension_skips_invalid [of bad w rest d] by simp
next
  assume r: "read_dimension d w = (Inr v, w')"
  show "0 < v" using read_dimension_accepted [OF r] by simp
  show "\<exists>pre s post. stdin w = pre @ Line s # post \<and> py_int s = Some v"
  proof (cases "v \<le> 1000")
    case True
    with read_dimension_accepted [OF r] show ?thesis by blast
  next
    case False
    with read_dimension_accepted [OF r] show ?thesis by (simp; blast)
  qed
next
  show "fst (read_dimension d w) \<noteq> Inl ValueError" by (rule read_dimension_no_ValueError)
  show "fst (main w) = Inr ()" by (rule main_returns)
qed

theorem invalid_number_reprompts_witness:
  "list_all (\<lambda>s. py_int s = None) [''abc'', ''1.5'']
   \<and> read_dimension Height (initial_world [Line ''abc'', Line ''1.5'', Line ''3'']) =
       (Inr 3, (initial_world [Line ''abc'', Line ''1.5'', Line ''3''])
                 \<lparr>stdout := [Prompt (dim_prompt Height), Print ''Please enter a valid number'',
                             Prompt (dim_prompt Height), Print ''Please enter a valid number'',
                             Prompt (dim_prompt Height)],
                   stdin := []\<rparr>)
   \<and> (0::int) < 3
   \<and> (\<exists>pre s post. [Line ''abc'', Line ''1.5'', Line ''3''] = pre @ Line s # post \<and> py_int s = Some 3)"
proof -
  let ?a = "initial_world [Line ''abc'', Line ''1.5'', Line ''3'']"
  let ?b = "?a\<lparr>stdout := stdout ?a @ concat (map (\<lambda>s. [Prompt (dim_prompt Height),
                                                  Print ''Please enter a valid number'']) [''abc'', ''1.5'']),
           stdin := [Line ''3'']\<rparr>"
  let ?c = "?b\<lparr>stdout := stdout ?b @ [Prompt (dim_prompt Height)], stdin := []\<rparr>"
  have bad: "list_all (\<lambda>s. py_int s = None) [''abc'', ''1.5'']"
    by (simp add: py_int_examples)
  have sa: "stdin ?a = map Line [''abc'', ''1.5''] @ [Line ''3'']"
    by (simp add: initial_world_def)
  have 1: "read_dimension Height ?a = read_dimension Height ?b"
    using invalid_number_reprompts [of "[''abc'', ''1.5'']" ?a "[Line ''3'']" Height] bad sa
    by blast
  have 2: "read_dimension Height ?b = (Inr 3, ?c)"
    by (rule read_small [where s = "''3''"]) (simp_all add: py_int_examples)
  have 3: "read_dimension Height ?a = (Inr 3, ?c)" using 1 2 by simp
  have 4: "0 < (3::int) \<and> (\<exists>pre s post. stdin ?a = pre @ Line s # post \<and> py_int s = Some 3)"
    using invalid_number_reprompts [of _ ?a _ Height 3 ?c] 3 by blast
  have 5: "read_dimension Height ?a =
       (Inr 3, ?a\<lparr>stdout := [Prompt (dim_prompt Height), Print ''Please enter a valid number'',
                             Prompt (dim_prompt Height), Print ''Please enter a valid number'',
                             Prompt (dim_prompt Height)],
                   stdin := []\<rparr>)"
    unfolding 3 by (simp add: initial_world_def)
  show ?thesis
    using bad 4 5 by (simp add: initial_world_def)
qed

subsection \<open>The final confirmation, the filename and the replies\<close>

lemma py_lower_examples:
  "py_lower ''Y'' = ''y''" "py_lower ''y'' = ''y''" "py_lower ''n'' \<noteq> ''y''"
  "py_lower ''yes'' \<noteq> ''y''" "py_lower ''Y es'' \<noteq> ''y''" "py_lower '''' \<noteq> ''y''"
  by code_simp+

lemma plain_session_3x2:
  "fst (get_user_input (initial_world [Line ''3'', Line ''2'', Line f, Line c])) =
           (if py_lower c \<noteq> ''y'' then Inr None
            else Inr (Some (3, 2, if py_strip f = [] then default_filename 3 2 else py_strip f)))"
  by (rule plain_session [where a = "''3''" and b = "''2''" and rest = "[]"])
    (simp_all add: initial_world_def py_int_examples)

lemma main_files_created:
  assumes "fst (get_user_input w) = Inr (Some (a, b, f))" and "faults w = Map.empty"
    and "0 < a" and "0 < b" and "b * (a + 1) \<le> sys_maxsize" and "b * (a + 1) \<le> int (free_cells w)"
  shows "files (snd (main w)) =
         (files w)(csv_filename f \<mapsto>
            concat (replicate (nat b) (join '';'' (replicate (nat a) ''0'') @ [CR, LF])))"
proof -
  let ?w1 = "snd (get_user_input w)"
  have ok: "faults ?w1 (csv_filename f) = None"
    using assms(2) by (simp add: get_user_input_faults)
  have m: "b * (a + 1) \<le> int (free_cells ?w1)"
    using assms(6) by (simp add: get_user_input_free_cells)
  show ?thesis
    by (simp add: main_create [OF assms(1)]
        create_grid_csv_positive_ok [OF assms(3,4) ok assms(5) m] get_user_input_files)
qed

lemma main_files_3x2:
  assumes "fst (get_user_input (initial_world ins)) = Inr (Some (3, 2, f))"
  shows "files (snd (main (initial_world ins))) =
         (files (initial_world ins))(csv_filename f \<mapsto>
            concat (replicate (nat 2) (join '';'' (replicate (nat 3) ''0'') @ [CR, LF])))"
  by (rule main_files_created [OF assms]) (simp_all add: initial_world_def sys_maxsize_def)

text \<open>
  Claim C4, as stated, fails: the reply \<^verbatim>\<open>Y\<close> at the final confirmation is other than
  \<^verbatim>\<open>y\<close>, yet \<^verbatim>\<open>get_user_input\<close> returns the width, the height and the filename, and the
  driver writes the file.
\<close>

theorem uppercase_Y_confirms:
  "''Y'' \<noteq> ''y''
   \<and> fst (get_user_input (initial_world [Line ''3'', Line ''2'', Line ''test'', Line ''Y'']))
       = Inr (Some (3, 2, ''test''))
   \<and> files (snd (main (initial_world [Line ''3'', Line ''2'', Line ''test'', Line ''Y''])))
        ''test.csv'' \<noteq> None
   \<and> files (initial_world [Line ''3'', Line ''2'', Line ''test'', Line ''Y'']) ''test.csv'' = None"
proof -
  let ?w = "initial_world [Line ''3'', Line ''2'', Line ''test'', Line ''Y'']"
  have g: "fst (get_user_input ?w) = Inr (Some (3, 2, ''test''))"
    by (simp add: plain_session_3x2 py_lower_examples py_strip_examples)
  have name: "csv_filename ''test'' = ''test.csv''"
    by (simp add: csv_filename_def endswith_def)
  have "files (snd (main ?w)) ''test.csv'' \<noteq> None"
    by (simp add: main_files_3x2 [OF g] name)
  then show ?thesis using g by (simp add: initial_world_def)
qed

text \<open>
  Claim C4, amended. When the final confirmation is reached, which takes that the
  numbers of the summary before it can be shown, and the reply there is neither \<^verbatim>\<open>y\<close>
  nor \<^verbatim>\<open>Y\<close>, or the user interrupts there, \<^verbatim>\<open>get_user_input\<close> returns the sentinel, the
  driver only prints its farewell after it, without running the grid writer, and every
  file is as it was before.
\<close>

theorem declined_confirmation_creates_nothing:
  assumes "read_dimension Width (banner w) = (Inr width, w1)"
    and "read_dimension Height w1 = (Inr height, w2)"
    and "\<not> exceeds_str_digits (width * height * 2)"
    and "stdin w2 = Line f # ev # rest"
    and "ev = CtrlC \<or> (\<exists>c. ev = Line c \<and> c \<noteq> ''y'' \<and> c \<noteq> ''Y'')"
  shows "fst (get_user_input w) = Inr None
     \<and> main w = (Inr (), print ''Goodbye!'' (snd (get_user_input w)))
     \<and> files (snd (main w)) = files w"
proof -
  have none: "fst (get_user_input w) = Inr None"
  proof (cases "ev = CtrlC")
    case True
    with assms(4) have "stdin w2 = Line f # CtrlC # rest" by simp
    then show ?thesis by (rule get_user_input_interrupt [OF assms(1,2,3)])
  next
    case False
    with assms(5) obtain c where c: "ev = Line c" "c \<noteq> ''y''" "c \<noteq> ''Y''" by blast
    then have "py_lower c \<noteq> ''y''" by (simp add: py_lower_y)
    moreover have "stdin w2 = Line f # Line c # rest" using assms(4) c(1) by simp
    ultimately show ?thesis using get_user_input_confirm(1) [OF assms(1,2,3)] by simp
  qed
  have m: "main w = (Inr (), print ''Goodbye!'' (snd (get_user_input w)))"
    using none by (rule main_cancelled)
  have "files (snd (main w)) = files w"
    by (simp add: m get_user_input_files)
  with none m show ?thesis by simp
qed

theorem declined_confirmation_creates_nothing_witness:
  "fst (read_dimension Width (banner (initial_world [Line ''3'', Line ''2'', Line ''test'', Line ''n'']))) = Inr 3
   \<and> fst (read_dimension Height (snd (read_dimension Width
        (banner (initial_world [Line ''3'', Line ''2'', Line ''test'', Line ''n'']))))) = Inr 2
   \<and> \<not> exceeds_str_digits (3 * 2 * 2)
   \<and> stdin (snd (read_dimension Height (snd (read_dimension Width
        (banner (initial_world [Line ''3'', Line ''2'', Line ''test'', Line ''n'']))))))
       = Line ''test'' # Line ''n'' # []
   \<and> ''n'' \<noteq> ''y'' \<and> ''n'' \<noteq> ''Y''
   \<and> fst (get_user_input (initial_world [Line ''3'', Line ''2'', Line ''test'', Line ''n''])) = Inr None
   \<and> files (snd (main (initial_world [Line ''3'', Line ''2'', Line ''test'', Line ''n''])))
       = files (initial_world [Line ''3'', Line ''2'', Line ''test'', Line ''n''])"
proof -
  let ?w = "initial_world [Line ''3'', Line ''2'', Line ''test'', Line ''n'']"
  let ?w1 = "(banner ?w)\<lparr>stdout := stdout (banner ?w) @ [Prompt (dim_prompt Width)],
                        stdin := [Line ''2'', Line ''test'', Line ''n'']\<rparr>"
  let ?w2 = "?w1\<lparr>stdout := stdout ?w1 @ [Prompt (dim_prompt Height)],
                  stdin := [Line ''test'', Line ''n'']\<rparr>"
  have 1: "read_dimension Width (banner ?w) = (Inr 3, ?w1)"
    by (rule read_small [where s = "''3''"])
      (simp_all add: banner_def initial_world_def py_int_examples)
  have 2: "read_dimension Height ?w1 = (Inr 2, ?w2)"
    by (rule read_small [where s = "''2''"]) (simp_all add: py_int_examples)
  have 3: "stdin ?w2 = Line ''test'' # Line ''n'' # []" by simp
  have 4: "Line ''n'' = CtrlC \<or> (\<exists>c. Line ''n'' = Line c \<and> c \<noteq> ''y'' \<and> c \<noteq> ''Y'')" by simp
  have 5: "\<not> exceeds_str_digits (3 * 2 * 2)"
    by (rule small_grid_converts) simp_all
  have a: "fst (read_dimension Width (banner ?w)) = Inr 3"
    and b: "snd (read_dimension Width (banner ?w)) = ?w1"
    using 1 by simp_all
  have c: "fst (read_dimension Height (snd (read_dimension Width (banner ?w)))) = Inr 2"
    and d: "stdin (snd (read_dimension Height (snd (read_dimension Width (banner ?w)))))
              = Line ''test'' # Line ''n'' # []"
    unfolding b using 2 by simp_all
  note t = declined_confirmation_creates_nothing [OF 1 2 5 3 4]
  have t1: "fst (get_user_input ?w) = Inr None"
    and t3: "files (snd (main ?w)) = files ?w"
    using t by blast+
  show ?thesis
    by (intro conjI a c d 5 t1 t3) simp_all
qed

text \<open>
  Claim C8, as stated, fails: the reply \<^verbatim>\<open>" a"\<close>, a space and a letter, is not blank, and
  the filename passed on is \<^verbatim>\<open>"a"\<close>, not the reply character for character; the file
  written is \<^verbatim>\<open>a.csv\<close>.
\<close>

theorem filename_whitespace_stripped:
  "\<not> list_all py_isspace '' a''
   \<and> fst (get_user_input (initial_world [Line ''3'', Line ''2'', Line '' a'', Line ''y'']))
       = Inr (Some (3, 2, ''a''))
   \<and> '' a'' \<noteq> ''a''
   \<and> files (snd (main (initial_world [Line ''3'', Line ''2'', Line '' a'', Line ''y'']))) ''a.csv''
       \<noteq> None
   \<and> files (snd (main (initial_world [Line ''3'', Line ''2'', Line '' a'', Line ''y'']))) '' a.csv''
       = None"
proof -
  let ?w = "initial_world [Line ''3'', Line ''2'', Line '' a'', Line ''y'']"
  have nb: "\<not> list_all py_isspace '' a''" by code_simp
  have g: "fst (get_user_input ?w) = Inr (Some (3, 2, ''a''))"
    by (simp add: plain_session_3x2 py_lower_examples py_strip_examples)
  have name: "csv_filename ''a'' = ''a.csv''"
    by (simp add: csv_filename_def endswith_def)
  have fw: "files ?w = Map.empty" by (simp add: initial_world_def)
  have mf: "files (snd (main ?w)) =
              (files ?w)(''a.csv'' \<mapsto>
                 concat (replicate (nat 2) (join '';'' (replicate (nat 3) ''0'') @ [CR, LF])))"
    using main_files_3x2 [OF g] by (simp only: name)
  have "files (snd (main ?w)) ''a.csv'' \<noteq> None" "files (snd (main ?w)) '' a.csv'' = None"
    unfolding mf fw by simp_all
  then show ?thesis using nb g by simp
qed

text \<open>
  Claim C8, amended. At the filename prompt, a reply that is empty or all whitespace
  yields the default filename \<^verbatim>\<open>grid_{width}x{height}.csv\<close>; any other reply is passed to
  the grid writer with its leading and trailing whitespace removed, which is the reply
  itself when it neither begins nor ends with whitespace. The filename reaches the grid
  writer when the summary that follows can show its numbers and the final confirmation
  is accepted.
\<close>

theorem filename_choice:
  assumes "read_dimension Width (banner w) = (Inr width, w1)"
    and "read_dimension Height w1 = (Inr height, w2)"
    and "\<not> exceeds_str_digits (width * height * 2)"
    and "stdin w2 = Line f # Line c # rest"
    and "py_lower c = ''y''"
  shows "fst (get_user_input w) =
           Inr (Some (width, height,
                  if list_all py_isspace f
                  then ''grid_'' @ py_str width @ ''x'' @ py_str height @ ''.csv''
                  else py_strip f))
     \<and> main w =
         (case create_grid_csv width height
                 (if list_all py_isspace f
                  then ''grid_'' @ py_str width @ ''x'' @ py_str height @ ''.csv''
                  else py_strip f)
                 (snd (get_user_input w)) of
            (Inl e, w3) \<Rightarrow> main_failed e w3
          | (Inr ok, w3) \<Rightarrow> (Inr (), w3))
     \<and> (f \<noteq> [] \<and> \<not> py_isspace (hd f) \<and> \<not> py_isspace (last f) \<longrightarrow> py_strip f = f)"
proof -
  let ?name = "if list_all py_isspace f
                  then ''grid_'' @ py_str width @ ''x'' @ py_str height @ ''.csv''
                  else py_strip f"
  have g: "fst (get_user_input w) = Inr (Some (width, height, ?name))"
    using get_user_input_confirm(1) [OF assms(1-4)] assms(5)
    by (simp add: py_strip_blank default_filename_def)
  have m: "main w = (case create_grid_csv width height ?name (snd (get_user_input w)) of
            (Inl e, w3) \<Rightarrow> main_failed e w3
          | (Inr ok, w3) \<Rightarrow> (Inr (), w3))"
    using g by (rule main_create)
  have v: "f \<noteq> [] \<and> \<not> py_isspace (hd f) \<and> \<not> py_isspace (last f) \<longrightarrow> py_strip f = f"
    using py_strip_verbatim [of f] by blast
  show ?thesis using g m v by blast
qed

theorem filename_choice_witness:
  "fst (read_dimension Width (banner (initial_world [Line ''5'', Line ''5'', Line [], Line ''y'']))) = Inr 5
   \<and> fst (read_dimension Height (snd (read_dimension Width
        (banner (initial_world [Line ''5'', Line ''5'', Line [], Line ''y'']))))) = Inr 5
   \<and> \<not> exceeds_str_digits (5 * 5 * 2)
   \<and> stdin (snd (read_dimension Height (snd (read_dimension Width
        (banner (initial_world [Line ''5'', Line ''5'', Line [], Line ''y'']))))))
       = Line [] # Line ''y'' # []
   \<and> py_lower ''y'' = ''y''
   \<and> fst (get_user_input (initial_world [Line ''5'', Line ''5'', Line [], Line ''y'']))
       = Inr (Some (5, 5, ''grid_5x5.csv''))
   \<and> ''ab'' \<noteq> [] \<and> \<not> py_isspace (hd ''ab'') \<and> \<not> py_isspace (last ''ab'')
   \<and> fst (get_user_input (initial_world [Line ''5'', Line ''5'', Line ''ab'', Line ''y'']))
       = Inr (Some (5, 5, ''ab''))"
proof -
  let ?w = "\<lambda>f. initial_world [Line ''5'', Line ''5'', Line f, Line ''y'']"
  let ?w1 = "\<lambda>f. (banner (?w f))\<lparr>stdout := stdout (banner (?w f)) @ [Prompt (dim_prompt Width)],
                        stdin := [Line ''5'', Line f, Line ''y'']\<rparr>"
  let ?w2 = "\<lambda>f. (?w1 f)\<lparr>stdout := stdout (?w1 f) @ [Prompt (dim_prompt Height)],
                  stdin := [Line f, Line ''y'']\<rparr>"
  have five: "py_int ''5'' = Some 5" by code_simp
  have 1: "read_dimension Width (banner (?w f)) = (Inr 5, ?w1 f)" for f
    by (rule read_small [where s = "''5''"]) (simp_all add: banner_def initial_world_def five)
  have 2: "read_dimension Height (?w1 f) = (Inr 5, ?w2 f)" for f
    by (rule read_small [where s = "''5''"]) (simp_all add: five)
  have 3: "stdin (?w2 f) = Line f # Line ''y'' # []" for f by simp
  have 4: "py_lower ''y'' = ''y''" by (rule py_lower_examples)
  have 5: "\<not> exceeds_str_digits (5 * 5 * 2)"
    by (rule small_grid_converts) simp_all
  have a: "fst (read_dimension Width (banner (?w []))) = Inr 5"
    and b: "snd (read_dimension Width (banner (?w []))) = ?w1 []"
    using 1 [of "[]"] by simp_all
  have c: "fst (read_dimension Height (snd (read_dimension Width (banner (?w []))))) = Inr 5"
    and d: "stdin (snd (read_dimension Height (snd (read_dimension Width (banner (?w []))))))
              = Line [] # Line ''y'' # []"
    unfolding b using 2 [of "[]"] by simp_all
  have sp: "\<not> py_isspace (hd ''ab'')" "\<not> py_isspace (last ''ab'')" by code_simp+
  have nb: "\<not> list_all py_isspace ''ab''" by code_simp
  have p5: "py_str 5 = ''5''" by code_simp
  have t1: "fst (get_user_input (?w [])) = Inr (Some (5, 5, ''grid_5x5.csv''))"
    using filename_choice [OF 1 2 5 3 4, of "[]"] by (simp add: p5)
  have t2: "fst (get_user_input (?w ''ab'')) = Inr (Some (5, 5, ''ab''))"
    using filename_choice [OF 1 2 5 3 4, of "''ab''"] sp nb by simp
  show ?thesis
    by (intro conjI a c d 4 5 t1 t2 sp) simp_all
qed

text \<open>
  Claim C10. A reply lowercases to \<open>y\<close> exactly when it is \<^verbatim>\<open>y\<close> or \<^verbatim>\<open>Y\<close>. At the prompt for
  a dimension above 1000 the value is accepted when the reply is one of the two, and the
  pass ends with \<^verbatim>\<open>continue\<close> on any other reply; at the final prompt, reached when the
  numbers of the summary before it can be shown, \<^verbatim>\<open>get_user_input\<close> returns the
  collected values when the reply is one of the two, and the sentinel on any other
  reply.
\<close>

theorem affirmative_iff_y:
  "(py_lower c = ''y'' \<longleftrightarrow> c = ''y'' \<or> c = ''Y'')
   \<and> (stdin w = Line s # Line c # rest \<and> py_int s = Some v \<and> 1000 < v \<longrightarrow>
        fst (dimension_try d w) = (if c = ''y'' \<or> c = ''Y'' then Inr (Some v) else Inr None))
   \<and> (read_dimension Width (banner w) = (Inr width, w1)
        \<and> read_dimension Height w1 = (Inr height, w2)
        \<and> \<not> exceeds_str_digits (width * height * 2)
        \<and> stdin w2 = Line f # Line c # rest \<longrightarrow>
        fst (get_user_input w) =
          (if c = ''y'' \<or> c = ''Y''
           then Inr (Some (width, height,
                  if py_strip f = [] then default_filename width height else py_strip f))
           else Inr None))"
proof (intro conjI impI)
  show y: "py_lower c = ''y'' \<longleftrightarrow> c = ''y'' \<or> c = ''Y''" by (rule py_lower_y)
  {
    assume "stdin w = Line s # Line c # rest \<and> py_int s = Some v \<and> 1000 < v"
    then have "dimension_try d w =
     (if py_lower c \<noteq> ''y'' then Inr None else Inr (Some v),
      w\<lparr>stdout := stdout w @ [Prompt (dim_prompt d), Prompt (large_prompt d v)], stdin := rest\<rparr>)"
      using try_large [of w s c rest v d] by blast
    then show "fst (dimension_try d w) = (if c = ''y'' \<or> c = ''Y'' then Inr (Some v) else Inr None)"
      using y by simp
  }
  {
    assume "read_dimension Width (banner w) = (Inr width, w1)
        \<and> read_dimension Height w1 = (Inr height, w2)
        \<and> \<not> exceeds_str_digits (width * height * 2)
        \<and> stdin w2 = Line f # Line c # rest"
    then have "fst (get_user_input w) =
           (if py_lower c \<noteq> ''y'' then Inr None
            else Inr (Some (width, height,
                   if py_strip f = [] then default_filename width height else py_strip f)))"
      using get_user_input_confirm(1) [of w width w1 height w2 f c rest] by blast
    then show "fst (get_user_input w) =
          (if c = ''y'' \<or> c = ''Y''
           then Inr (Some (width, height,
                  if py_strip f = [] then default_filename width height else py_strip f))
           else Inr None)"
      using y by simp
  }
qed

theorem affirmative_iff_y_witness:
  "py_lower ''Y'' = ''y'' \<and> py_lower ''yes'' \<noteq> ''y'' \<and> py_lower ''Y es'' \<noteq> ''y''
   \<and> py_lower [] \<noteq> ''y''
   \<and> stdin (initial_world [Line ''2000'', Line ''Y'']) = Line ''2000'' # Line ''Y'' # []
   \<and> py_int ''2000'' = Some 2000 \<and> (1000::int) < 2000
   \<and> fst (dimension_try Width (initial_world [Line ''2000'', Line ''Y''])) = Inr (Some 2000)
   \<and> fst (dimension_try Width (initial_world [Line ''2000'', Line ''yes''])) = Inr None
   \<and> fst (read_dimension Width (banner (initial_world [Line ''3'', Line ''2'', Line ''test'', Line ''Y''])))
       = Inr 3
   \<and> fst (read_dimension Height (snd (read_dimension Width
        (banner (initial_world [Line ''3'', Line ''2'', Line ''test'', Line ''Y''])))))
       = Inr 2
   \<and> \<not> exceeds_str_digits (3 * 2 * 2)
   \<and> stdin (snd (read_dimension Height (snd (read_dimension Width
        (banner (initial_world [Line ''3'', Line ''2'', Line ''test'', Line ''Y''])))))) =
       Line ''test'' # Line ''Y'' # []
   \<and> fst (get_user_input (initial_world [Line ''3'', Line ''2'', Line ''test'', Line ''Y'']))
       = Inr (Some (3, 2, ''test''))
   \<and> fst (get_user_input (initial_world [Line ''3'', Line ''2'', Line ''test'', Line ''yes'']))
       = Inr None"
proof -
  let ?w = "\<lambda>c. initial_world [Line ''3'', Line ''2'', Line ''test'', Line c]"
  let ?w1 = "\<lambda>c. (banner (?w c))\<lparr>stdout := stdout (banner (?w c)) @ [Prompt (dim_prompt Width)],
                        stdin := [Line ''2'', Line ''test'', Line c]\<rparr>"
  let ?w2 = "\<lambda>c. (?w1 c)\<lparr>stdout := stdout (?w1 c) @ [Prompt (dim_prompt Height)],
                  stdin := [Line ''test'', Line c]\<rparr>"
  let ?l = "\<lambda>c. initial_world [Line ''2000'', Line c]"
  have 1: "read_dimension Width (banner (?w c)) = (Inr 3, ?w1 c)" for c
    by (rule read_small [where s = "''3''"])
      (simp_all add: banner_def initial_world_def py_int_examples)
  have 2: "read_dimension Height (?w1 c) = (Inr 2, ?w2 c)" for c
    by (rule read_small [where s = "''2''"]) (simp_all add: py_int_examples)
  have 3: "stdin (?w2 c) = Line ''test'' # Line c # []" for c by simp
  have 5: "\<not> exceeds_str_digits (3 * 2 * 2)"
    by (rule small_grid_converts) simp_all
  have l: "stdin (?l c) = Line ''2000'' # Line c # []" for c
    by (simp add: initial_world_def)
  have big: "(1000::int) < 2000" by simp
  have a: "fst (read_dimension Width (banner (?w ''Y''))) = Inr 3"
    and b: "snd (read_dimension Width (banner (?w ''Y''))) = ?w1 ''Y''"
    using 1 [of "''Y''"] by simp_all
  have c: "fst (read_dimension Height (snd (read_dimension Width (banner (?w ''Y''))))) = Inr 2"
    and d: "stdin (snd (read_dimension Height (snd (read_dimension Width (banner (?w ''Y''))))))
              = Line ''test'' # Line ''Y'' # []"
    unfolding b using 2 [of "''Y''"] by simp_all
  have y1: "py_lower ''Y'' = ''y''"
    using affirmative_iff_y [of "''Y''"] by simp
  have y2: "py_lower ''yes'' \<noteq> ''y''"
    using affirmative_iff_y [of "''yes''"] by simp
  have y3: "py_lower ''Y es'' \<noteq> ''y''"
    using affirmative_iff_y [of "''Y es''"] by simp
  have y4: "py_lower [] \<noteq> ''y''"
    using affirmative_iff_y [of "[]"] by simp
  have d1: "fst (dimension_try Width (?l ''Y'')) = Inr (Some 2000)"
    using affirmative_iff_y [where c = "''Y''" and w = "?l ''Y''" and s = "''2000''" and rest = "[]"
          and v = 2000 and d = Width]
      l [of "''Y''"] py_int_examples(4) big by simp
  have d2: "fst (dimension_try Width (?l ''yes'')) = Inr None"
    using affirmative_iff_y [where c = "''yes''" and w = "?l ''yes''" and s = "''2000''" and rest = "[]"
          and v = 2000 and d = Width]
      l [of "''yes''"] py_int_examples(4) big by simp
  have g1: "fst (get_user_input (?w ''Y'')) = Inr (Some (3, 2, ''test''))"
    using affirmative_iff_y [where c = "''Y''" and w = "?w ''Y''" and rest = "[]" and width = 3
          and ?w1.0 = "?w1 ''Y''" and height = 2 and ?w2.0 = "?w2 ''Y''" and f = "''test''"]
      1 [of "''Y''"] 2 [of "''Y''"] 3 [of "''Y''"] 5 by (simp add: py_strip_examples)
  have g2: "fst (get_user_input (?w ''yes'')) = Inr None"
    using affirmative_iff_y [where c = "''yes''" and w = "?w ''yes''" and rest = "[]" and width = 3
          and ?w1.0 = "?w1 ''yes''" and height = 2 and ?w2.0 = "?w2 ''yes''" and f = "''test''"]
      1 [of "''yes''"] 2 [of "''yes''"] 3 [of "''yes''"] 5 by simp
  show ?thesis
    by (intro conjI y1 y2 y3 y4 l py_int_examples(4) big d1 d2 a c d 5 g1 g2)
qed

subsection \<open>The failure paths\<close>

text \<open>The two failure paths at work: a width that is no index, and a summary whose
  numbers cannot be shown.\<close>

lemma create_grid_csv_overflow:
  assumes "0 < height" and "sys_maxsize < width"
  shows "create_grid_csv width height filename w =
    (Inr False,
     print (''Error creating '' @ csv_filename filename @ '': '' @ str_exn OverflowError) w)"
  using assms by (simp add: create_grid_csv_def Let_def grid_data_def create_failed_def)

lemma main_summary_raises:
  assumes "read_dimension Width (banner w) = (Inr width, w1)"
    and "read_dimension Height w1 = (Inr height, w2)"
    and "exceeds_str_digits (width * height * 2)"
    and "stdin w2 = Line f # rest"
  shows "main w =
    (Inr (), print (''Unexpected error: '' @ str_exn ValueError) (snd (get_user_input w)))"
    and "files (snd (main w)) = files w"
proof -
  have e: "fst (get_user_input w) = Inl ValueError"
    by (rule get_user_input_summary_raises(1) [OF assms])
  show m: "main w =
    (Inr (), print (''Unexpected error: '' @ str_exn ValueError) (snd (get_user_input w)))"
    using e by (cases "get_user_input w") (simp add: main_def main_failed_def)
  show "files (snd (main w)) = files w"
    by (simp add: m get_user_input_files)
qed

end
